theory Spec2Isabelle
  imports Main
begin

section \<open>The repair-shop catalogue backend (backend/server.js)\<close>

text \<open>
  The server is one Express application: a token-checking middleware, two credential
  handlers (register, login) and four handlers for each of the tables \<open>devices\<close> and
  \<open>services\<close>. Each handler is modelled as a function from the store and the request
  to the store afterwards and the response. The libraries the handlers call
  (\<open>parseInt\<close>, \<open>String.prototype.split\<close>, the SQL statements, \<open>jsonwebtoken\<close>) are
  modelled next to the handler that calls them.

  JavaScript strings are modelled as \<open>string\<close>, each \<open>char\<close> read as one code unit
  below 256. A value that may be \<open>undefined\<close> is an \<open>option\<close>.
\<close>

subsection \<open>parseInt and the page and limit query parameters\<close>

text \<open>
  \<open>StrWhiteSpaceChar\<close> of ECMAScript, among the code units below 256: TAB, LF, VT, FF,
  CR, SP and NBSP.
\<close>

definition is_StrWhiteSpaceChar :: "char \<Rightarrow> bool" where
  "is_StrWhiteSpaceChar c \<longleftrightarrow> (of_char c :: nat) \<in> {9, 10, 11, 12, 13, 32, 160}"

text \<open>The value of a code unit as a digit: \<open>0-9\<close> are 0 to 9, \<open>a-z\<close> and \<open>A-Z\<close> are 10 to 35.\<close>

definition digit_of :: "char \<Rightarrow> nat option" where
  "digit_of c =
     (let k = (of_char c :: nat) in
      if 48 \<le> k \<and> k \<le> 57 then Some (k - 48)
      else if 97 \<le> k \<and> k \<le> 122 then Some (k - 87)
      else if 65 \<le> k \<and> k \<le> 90 then Some (k - 55)
      else None)"

definition is_radix_digit :: "nat \<Rightarrow> char \<Rightarrow> bool" where
  "is_radix_digit R c = (case digit_of c of Some d \<Rightarrow> d < R | None \<Rightarrow> False)"

definition digit_value :: "char \<Rightarrow> nat" where
  "digit_value c = (case digit_of c of Some d \<Rightarrow> d | None \<Rightarrow> 0)"

definition digits_value :: "nat \<Rightarrow> string \<Rightarrow> nat" where
  "digits_value R Z = foldl (\<lambda>a c. a * R + digit_value c) 0 Z"

text \<open>
  \<open>parseInt(string)\<close> with no radix argument, step by step as ECMAScript defines it:
  leading white space is skipped, one sign is read, a prefix \<open>0x\<close> or \<open>0X\<close> selects
  radix 16 (otherwise the radix is 10), and the longest run of digits of that radix is
  the number; with no digit the result is \<open>NaN\<close>, here \<open>None\<close>. The result is the
  mathematical integer; the JavaScript Number is the double nearest to it, which is the
  integer itself up to \<open>2^53\<close> and is zero only when the integer is zero.
\<close>

definition js_parseInt :: "string \<Rightarrow> int option" where
  "js_parseInt inputString =
     (let S = dropWhile is_StrWhiteSpaceChar inputString;
          sign = (if S \<noteq> [] \<and> hd S = CHR ''-'' then - 1 else 1 :: int);
          S1 = (if S \<noteq> [] \<and> (hd S = CHR ''+'' \<or> hd S = CHR ''-'') then tl S else S);
          hex = (take 2 S1 = ''0x'' \<or> take 2 S1 = ''0X'');
          R = (if hex then 16 else 10);
          S2 = (if hex then drop 2 S1 else S1);
          Z = takeWhile (is_radix_digit R) S2
      in if Z = [] then None else Some (sign * int (digits_value R Z)))"

text \<open>
  \<open>ToString\<close> of a query parameter: an absent parameter is \<open>undefined\<close>, which
  \<open>parseInt\<close> reads as the text \<open>undefined\<close>.
\<close>

definition ToString :: "string option \<Rightarrow> string" where
  "ToString v = (case v of None \<Rightarrow> ''undefined'' | Some s \<Rightarrow> s)"

text \<open>
  \<open>parseInt(v) || d\<close>: \<open>NaN\<close> and zero are falsy, every other number is the value of
  the expression.
\<close>

definition parseInt_or :: "string option \<Rightarrow> int \<Rightarrow> int" where
  "parseInt_or v d =
     (case js_parseInt (ToString v) of
        None \<Rightarrow> d
      | Some n \<Rightarrow> if n = 0 then d else n)"

text \<open>
  \<open>req.query\<close> and \<open>req.body\<close> are objects read by field name: maps from the name
  to the text of the field, \<open>None\<close> where the field is \<open>undefined\<close>.
\<close>

type_synonym fields = "string \<rightharpoonup> string"

text \<open>\<open>parseInt(req.query.page) || 1\<close> and \<open>parseInt(req.query.limit) || 10\<close>\<close>

definition page_of :: "fields \<Rightarrow> int" where
  "page_of q = parseInt_or (q ''page'') 1"

definition limit_of :: "fields \<Rightarrow> int" where
  "limit_of q = parseInt_or (q ''limit'') 10"

text \<open>
  Two notions taken from the specification's words, to compare \<open>parseInt\<close> with: the
  decimal numeral of a natural number, and a text that starts, after white space and one
  optional sign, with a decimal digit.
\<close>

fun decimal :: "nat \<Rightarrow> string" where
  "decimal n =
     (if n < 10 then [char_of (48 + n)]
      else decimal (n div 10) @ [char_of (48 + n mod 10)])"

definition starts_numeric :: "string \<Rightarrow> bool" where
  "starts_numeric s =
     (let S = dropWhile is_StrWhiteSpaceChar s;
          S1 = (if S \<noteq> [] \<and> (hd S = CHR ''+'' \<or> hd S = CHR ''-'') then tl S else S)
      in S1 \<noteq> [] \<and> is_radix_digit 10 (hd S1))"

subsection \<open>The store\<close>

text \<open>
  Modelled from the spec: the schema of the database, which server.js only queries. The
  tables are \<open>users(id, email, password, role)\<close>,
  \<open>devices(id, name, model, description, image, price, status, client_name, client_phone)\<close>
  and \<open>services(id, title, description, price, image, duration, category, is_available,
  technician)\<close>. A table is the list of its rows in the store's order. The \<open>id\<close> of a
  row is an integer the store assigns on insertion from a counter of the table. The
  columns of a user are texts; the other columns of a device and of a service hold the
  bound value as it was sent, \<open>None\<close> for SQL \<open>NULL\<close> (an \<open>undefined\<close> parameter).
  The store compares texts, and ids, by equality.
\<close>

record user =
  u_id :: nat
  u_email :: string
  u_password :: string
  u_role :: string

record device =
  d_id :: nat
  d_name :: "string option"
  d_model :: "string option"
  d_description :: "string option"
  d_image :: "string option"
  d_price :: "string option"
  d_status :: "string option"
  d_client_name :: "string option"
  d_client_phone :: "string option"

record service =
  s_id :: nat
  s_title :: "string option"
  s_description :: "string option"
  s_price :: "string option"
  s_image :: "string option"
  s_duration :: "string option"
  s_category :: "string option"
  s_is_available :: "string option"
  s_technician :: "string option"

text \<open>
  \<open>online\<close> tells whether the pool reaches the database while the request is handled;
  when it does not, every \<open>db.query\<close> rejects and the handler's \<open>catch\<close> answers.
\<close>

record db =
  online :: bool
  users :: "user list"
  users_auto_increment :: nat
  devices :: "device list"
  devices_auto_increment :: nat
  services :: "service list"
  services_auto_increment :: nat

datatype db_error = QueryRejected

text \<open>\<open>SELECT * FROM users WHERE email = ?\<close>; a \<open>NULL\<close> parameter matches no row.\<close>

definition select_users_where_email :: "db \<Rightarrow> string option \<Rightarrow> db_error + user list" where
  "select_users_where_email db email =
     (if online db
      then Inr (case email of
                  None \<Rightarrow> []
                | Some e \<Rightarrow> filter (\<lambda>u. u_email u = e) (users db))
      else Inl QueryRejected)"

text \<open>\<open>INSERT INTO users (email, password, role) VALUES (?, ?, ?)\<close>\<close>

definition insert_into_users :: "db \<Rightarrow> string \<Rightarrow> string \<Rightarrow> string \<Rightarrow> db_error + db" where
  "insert_into_users db email password role =
     (if online db
      then Inr (db\<lparr>users := users db @
                    [\<lparr>u_id = users_auto_increment db, u_email = email,
                      u_password = password, u_role = role\<rparr>],
                  users_auto_increment := users_auto_increment db + 1\<rparr>)
      else Inl QueryRejected)"

text \<open>
  \<open>SELECT * FROM t LIMIT ? OFFSET ?\<close> on the rows of a table. The two numbers are
  written into the statement as they are, and MySQL rejects a statement whose \<open>LIMIT\<close>
  or \<open>OFFSET\<close> is negative.
\<close>

definition select_limit_offset :: "bool \<Rightarrow> 'r list \<Rightarrow> int \<Rightarrow> int \<Rightarrow> db_error + 'r list" where
  "select_limit_offset up rows limit offset =
     (if up \<and> 0 \<le> limit \<and> 0 \<le> offset
      then Inr (take (nat limit) (drop (nat offset) rows))
      else Inl QueryRejected)"

text \<open>\<open>SELECT COUNT(*) as total FROM t\<close>, read as \<open>countResult[0].total\<close>.\<close>

definition select_count :: "bool \<Rightarrow> 'r list \<Rightarrow> db_error + nat" where
  "select_count up rows = (if up then Inr (length rows) else Inl QueryRejected)"

text \<open>
  \<open>INSERT INTO devices (name, model, description, image, price, status, client_name,
  client_phone) VALUES (?, ?, ?, ?, ?, ?, ?, ?)\<close>
\<close>

definition insert_into_devices ::
  "db \<Rightarrow> string option \<Rightarrow> string option \<Rightarrow> string option \<Rightarrow> string option \<Rightarrow>
   string option \<Rightarrow> string option \<Rightarrow> string option \<Rightarrow> string option \<Rightarrow> db_error + db" where
  "insert_into_devices db name model description img price status client_name client_phone =
     (if online db
      then Inr (db\<lparr>devices := devices db @
                    [\<lparr>d_id = devices_auto_increment db, d_name = name, d_model = model,
                      d_description = description, d_image = img, d_price = price,
                      d_status = status, d_client_name = client_name,
                      d_client_phone = client_phone\<rparr>],
                  devices_auto_increment := devices_auto_increment db + 1\<rparr>)
      else Inl QueryRejected)"

text \<open>
  \<open>UPDATE devices SET name = ?, model = ?, description = ?, image = ?, price = ?,
  status = ?, client_name = ?, client_phone = ? WHERE id = ?\<close>
\<close>

definition update_devices_where_id ::
  "db \<Rightarrow> string option \<Rightarrow> string option \<Rightarrow> string option \<Rightarrow> string option \<Rightarrow>
   string option \<Rightarrow> string option \<Rightarrow> string option \<Rightarrow> string option \<Rightarrow> nat \<Rightarrow> db_error + db" where
  "update_devices_where_id db name model description img price status client_name
     client_phone i =
     (if online db
      then Inr (db\<lparr>devices :=
                    map (\<lambda>r. if d_id r = i
                              then r\<lparr>d_name := name, d_model := model,
                                     d_description := description, d_image := img,
                                     d_price := price, d_status := status,
                                     d_client_name := client_name,
                                     d_client_phone := client_phone\<rparr>
                              else r) (devices db)\<rparr>)
      else Inl QueryRejected)"

text \<open>\<open>DELETE FROM devices WHERE id = ?\<close>\<close>

definition delete_from_devices_where_id :: "db \<Rightarrow> nat \<Rightarrow> db_error + db" where
  "delete_from_devices_where_id db i =
     (if online db
      then Inr (db\<lparr>devices := filter (\<lambda>r. d_id r \<noteq> i) (devices db)\<rparr>)
      else Inl QueryRejected)"

text \<open>
  \<open>INSERT INTO services (title, description, price, image, duration, category,
  is_available, technician) VALUES (?, ?, ?, ?, ?, ?, ?, ?)\<close>
\<close>

definition insert_into_services ::
  "db \<Rightarrow> string option \<Rightarrow> string option \<Rightarrow> string option \<Rightarrow> string option \<Rightarrow>
   string option \<Rightarrow> string option \<Rightarrow> string option \<Rightarrow> string option \<Rightarrow> db_error + db" where
  "insert_into_services db title description price img duration category is_available
     technician =
     (if online db
      then Inr (db\<lparr>services := services db @
                    [\<lparr>s_id = services_auto_increment db, s_title = title,
                      s_description = description, s_price = price, s_image = img,
                      s_duration = duration, s_category = category,
                      s_is_available = is_available, s_technician = technician\<rparr>],
                  services_auto_increment := services_auto_increment db + 1\<rparr>)
      else Inl QueryRejected)"

text \<open>
  \<open>UPDATE services SET title = ?, description = ?, price = ?, image = ?, duration = ?,
  category = ?, is_available = ?, technician = ? WHERE id = ?\<close>
\<close>

definition update_services_where_id ::
  "db \<Rightarrow> string option \<Rightarrow> string option \<Rightarrow> string option \<Rightarrow> string option \<Rightarrow>
   string option \<Rightarrow> string option \<Rightarrow> string option \<Rightarrow> string option \<Rightarrow> nat \<Rightarrow> db_error + db" where
  "update_services_where_id db title description price img duration category is_available
     technician i =
     (if online db
      then Inr (db\<lparr>services :=
                    map (\<lambda>r. if s_id r = i
                              then r\<lparr>s_title := title, s_description := description,
                                     s_price := price, s_image := img,
                                     s_duration := duration, s_category := category,
                                     s_is_available := is_available,
                                     s_technician := technician\<rparr>
                              else r) (services db)\<rparr>)
      else Inl QueryRejected)"

text \<open>\<open>DELETE FROM services WHERE id = ?\<close>\<close>

definition delete_from_services_where_id :: "db \<Rightarrow> nat \<Rightarrow> db_error + db" where
  "delete_from_services_where_id db i =
     (if online db
      then Inr (db\<lparr>services := filter (\<lambda>r. s_id r \<noteq> i) (services db)\<rparr>)
      else Inl QueryRejected)"

subsection \<open>Requests, responses and the token library\<close>

text \<open>
  \<open>req.file\<close> as \<open>upload.single('image')\<close> leaves it: the stored upload with the name
  the disk storage gave it, or \<open>undefined\<close> when the request carries no file.
\<close>

record uploaded_file =
  filename :: string

text \<open>The object \<open>{ id, role }\<close> handed to \<open>jwt.sign\<close>, and its options.\<close>

record jwt_payload =
  p_id :: nat
  p_role :: string

record jwt_options =
  expiresIn :: string

text \<open>The decoded token \<open>jwt.verify\<close> hands to its callback.\<close>

record jwt_claims =
  c_id :: nat
  c_role :: string
  c_iat :: nat
  c_exp :: nat

text \<open>
  The environment of the process: what \<open>jsonwebtoken\<close> computes, and
  \<open>process.env.JWT_SECRET\<close>, which is \<open>undefined\<close> when the variable is not set.
  \<open>lib_sign env payload secret options\<close> is the token the library makes with a secret
  it accepts, \<open>None\<close> where it throws. \<open>jwt_verify env token secret\<close> is the decoded
  token, \<open>None\<close> where the library reports an error to the callback.
\<close>

record env =
  lib_sign :: "jwt_payload \<Rightarrow> string \<Rightarrow> jwt_options \<Rightarrow> string option"
  jwt_verify :: "string \<Rightarrow> string option \<Rightarrow> jwt_claims option"
  JWT_SECRET :: "string option"

text \<open>
  The route parameter \<open>:id\<close> is a text in Express; it is modelled by the id it denotes,
  as the store's comparison \<open>id = ?\<close> is modelled by equality of ids. The fields of the
  query and of the body are texts or absent. \<open>req_user\<close> is \<open>req.user\<close>, unset until
  the middleware sets it.
\<close>

record request =
  req_headers_authorization :: "string option"
  req_query :: fields
  req_params_id :: nat
  req_body :: fields
  req_file :: "uploaded_file option"
  req_user :: "jwt_claims option"

datatype json =
    ErrorJson string
  | MessageJson string
  | LoginJson string string
  | DevicesJson "device list" nat int int
  | ServicesJson "service list" nat int int

record response =
  res_status :: nat
  res_body :: json

text \<open>\<open>!v\<close> for a value that is \<open>undefined\<close> or a string: the empty string is falsy too.\<close>

definition falsy :: "string option \<Rightarrow> bool" where
  "falsy v = (case v of None \<Rightarrow> True | Some s \<Rightarrow> s = [])"

text \<open>
  \<open>jwt.sign(payload, secretOrPrivateKey, options)\<close> called without a callback: it
  throws, here \<open>None\<close>, when the secret is \<open>undefined\<close> or empty (\<open>secretOrPrivateKey
  must have a value\<close>), and wherever the library throws with a secret it has.
\<close>

definition jwt_sign :: "env \<Rightarrow> jwt_payload \<Rightarrow> string option \<Rightarrow> jwt_options \<Rightarrow> string option" where
  "jwt_sign env payload secretOrPrivateKey options =
     (if falsy secretOrPrivateKey then None
      else lib_sign env payload (the secretOrPrivateKey) options)"

text \<open>\<open>str.split(sep)\<close> for a separator of one code unit.\<close>

fun js_split :: "string \<Rightarrow> char \<Rightarrow> string list" where
  "js_split [] sep = [[]]"
| "js_split (c # cs) sep =
     (if c = sep then [] # js_split cs sep
      else (case js_split cs sep of
              [] \<Rightarrow> [[c]]
            | w # ws \<Rightarrow> (c # w) # ws))"

text \<open>\<open>xs[i]\<close>: \<open>undefined\<close> past the end of the array.\<close>

definition js_index :: "'a list \<Rightarrow> nat \<Rightarrow> 'a option" where
  "js_index xs i = (if i < length xs then Some (xs ! i) else None)"

subsection \<open>authenticateToken\<close>

text \<open>
  \<open>authHeader && authHeader.split(' ')[1]\<close>: a falsy header (\<open>undefined\<close> or empty) is
  the value of the expression itself.
\<close>

definition extract_token :: "request \<Rightarrow> string option" where
  "extract_token req =
     (let authHeader = req_headers_authorization req in
      if falsy authHeader then authHeader
      else js_index (js_split (the authHeader) CHR '' '') 1)"

text \<open>
  The middleware answers (\<open>Inl\<close>) or calls \<open>next()\<close> with the request it has written
  \<open>req.user\<close> into (\<open>Inr\<close>).
\<close>

definition authenticateToken :: "env \<Rightarrow> request \<Rightarrow> response + request" where
  "authenticateToken env req =
     (let token = extract_token req in
      if falsy token then Inl \<lparr>res_status = 401, res_body = ErrorJson ''Token required''\<rparr>
      else (case jwt_verify env (the token) (JWT_SECRET env) of
              None \<Rightarrow> Inl \<lparr>res_status = 403, res_body = ErrorJson ''Invalid token''\<rparr>
            | Some user \<Rightarrow> Inr (req\<lparr>req_user := Some user\<rparr>)))"

subsection \<open>Register and login\<close>

definition post_api_register :: "db \<Rightarrow> request \<Rightarrow> db \<times> response" where
  "post_api_register db req =
     (let email = req_body req ''email'';
          password = req_body req ''password'' in
      if falsy email \<or> falsy password
      then (db, \<lparr>res_status = 400, res_body = ErrorJson ''Invalid input''\<rparr>)
      else (case select_users_where_email db email of
              Inl error \<Rightarrow>
                (db, \<lparr>res_status = 500, res_body = ErrorJson ''Registration failed''\<rparr>)
            | Inr existingUsers \<Rightarrow>
                if length existingUsers > 0
                then (db, \<lparr>res_status = 400, res_body = ErrorJson ''Email already exists''\<rparr>)
                else (case insert_into_users db (the email) (the password) ''user'' of
                        Inl error \<Rightarrow>
                          (db, \<lparr>res_status = 500,
                                res_body = ErrorJson ''Registration failed''\<rparr>)
                      | Inr db' \<Rightarrow>
                          (db', \<lparr>res_status = 201,
                                 res_body = MessageJson ''User registered''\<rparr>))))"

text \<open>
  \<open>password !== user.password\<close> compares the body's field, which may be \<open>undefined\<close>,
  with the stored text. The whole body of the handler is in the \<open>try\<close>: a rejected
  query and a \<open>jwt.sign\<close> that throws are both answered by the \<open>catch\<close>.
\<close>

definition post_api_login :: "env \<Rightarrow> db \<Rightarrow> request \<Rightarrow> db \<times> response" where
  "post_api_login env db req =
     (let email = req_body req ''email'';
          password = req_body req ''password'' in
      case select_users_where_email db email of
        Inl error \<Rightarrow> (db, \<lparr>res_status = 500, res_body = ErrorJson ''Login failed''\<rparr>)
      | Inr users_found \<Rightarrow>
          if length users_found = 0
          then (db, \<lparr>res_status = 401, res_body = ErrorJson ''User not found''\<rparr>)
          else (let user = users_found ! 0 in
                if password \<noteq> Some (u_password user)
                then (db, \<lparr>res_status = 401, res_body = ErrorJson ''Invalid password''\<rparr>)
                else (case jwt_sign env \<lparr>p_id = u_id user, p_role = u_role user\<rparr>
                             (JWT_SECRET env) \<lparr>expiresIn = ''1h''\<rparr> of
                        None \<Rightarrow>
                          (db, \<lparr>res_status = 500, res_body = ErrorJson ''Login failed''\<rparr>)
                      | Some token \<Rightarrow>
                          (db, \<lparr>res_status = 200,
                                res_body = LoginJson token (u_role user)\<rparr>))))"

subsection \<open>Devices\<close>

definition get_api_devices :: "db \<Rightarrow> request \<Rightarrow> db \<times> response" where
  "get_api_devices db req =
     (let page = page_of (req_query req);
          limit = limit_of (req_query req);
          offset = (page - 1) * limit in
      case select_limit_offset (online db) (devices db) limit offset of
        Inl error \<Rightarrow>
          (db, \<lparr>res_status = 500, res_body = ErrorJson ''Failed to fetch devices''\<rparr>)
      | Inr rows \<Rightarrow>
          (case select_count (online db) (devices db) of
             Inl error \<Rightarrow>
               (db, \<lparr>res_status = 500, res_body = ErrorJson ''Failed to fetch devices''\<rparr>)
           | Inr total_count \<Rightarrow>
               (db, \<lparr>res_status = 200, res_body = DevicesJson rows total_count page limit\<rparr>)))"

text \<open>The image reference of a new row: the upload's, else the placeholder's.\<close>

definition image_of_create :: "request \<Rightarrow> string option" where
  "image_of_create req =
     (case req_file req of
        Some f \<Rightarrow> Some (''/uploads/'' @ filename f)
      | None \<Rightarrow> Some ''/uploads/placeholder.jpg'')"

text \<open>The image reference of an update: the upload's, else \<open>req.body.image\<close>.\<close>

definition image_of_update :: "request \<Rightarrow> string option" where
  "image_of_update req =
     (case req_file req of
        Some f \<Rightarrow> Some (''/uploads/'' @ filename f)
      | None \<Rightarrow> req_body req ''image'')"

definition post_api_devices :: "db \<Rightarrow> request \<Rightarrow> db \<times> response" where
  "post_api_devices db req =
     (let b = req_body req;
          img = image_of_create req in
      case insert_into_devices db (b ''name'') (b ''model'') (b ''description'') img
             (b ''price'') (b ''status'') (b ''client_name'') (b ''client_phone'') of
        Inl error \<Rightarrow> (db, \<lparr>res_status = 500, res_body = ErrorJson ''Failed to add device''\<rparr>)
      | Inr db' \<Rightarrow> (db', \<lparr>res_status = 201, res_body = MessageJson ''Device added''\<rparr>))"

definition put_api_devices :: "db \<Rightarrow> request \<Rightarrow> db \<times> response" where
  "put_api_devices db req =
     (let i = req_params_id req;
          b = req_body req;
          img = image_of_update req in
      case update_devices_where_id db (b ''name'') (b ''model'') (b ''description'') img
             (b ''price'') (b ''status'') (b ''client_name'') (b ''client_phone'') i of
        Inl error \<Rightarrow>
          (db, \<lparr>res_status = 500, res_body = ErrorJson ''Failed to update device''\<rparr>)
      | Inr db' \<Rightarrow> (db', \<lparr>res_status = 200, res_body = MessageJson ''Device updated''\<rparr>))"

definition delete_api_devices :: "db \<Rightarrow> request \<Rightarrow> db \<times> response" where
  "delete_api_devices db req =
     (let i = req_params_id req in
      case delete_from_devices_where_id db i of
        Inl error \<Rightarrow>
          (db, \<lparr>res_status = 500, res_body = ErrorJson ''Failed to delete device''\<rparr>)
      | Inr db' \<Rightarrow> (db', \<lparr>res_status = 200, res_body = MessageJson ''Device deleted''\<rparr>))"

subsection \<open>Services\<close>

definition get_api_services :: "db \<Rightarrow> request \<Rightarrow> db \<times> response" where
  "get_api_services db req =
     (let page = page_of (req_query req);
          limit = limit_of (req_query req);
          offset = (page - 1) * limit in
      case select_limit_offset (online db) (services db) limit offset of
        Inl error \<Rightarrow>
          (db, \<lparr>res_status = 500, res_body = ErrorJson ''Failed to fetch services''\<rparr>)
      | Inr rows \<Rightarrow>
          (case select_count (online db) (services db) of
             Inl error \<Rightarrow>
               (db, \<lparr>res_status = 500, res_body = ErrorJson ''Failed to fetch services''\<rparr>)
           | Inr total_count \<Rightarrow>
               (db, \<lparr>res_status = 200, res_body = ServicesJson rows total_count page limit\<rparr>)))"

definition post_api_services :: "db \<Rightarrow> request \<Rightarrow> db \<times> response" where
  "post_api_services db req =
     (let b = req_body req;
          img = image_of_create req in
      case insert_into_services db (b ''title'') (b ''description'') (b ''price'') img
             (b ''duration'') (b ''category'') (b ''is_available'') (b ''technician'') of
        Inl error \<Rightarrow> (db, \<lparr>res_status = 500, res_body = ErrorJson ''Failed to add service''\<rparr>)
      | Inr db' \<Rightarrow> (db', \<lparr>res_status = 201, res_body = MessageJson ''Service added''\<rparr>))"

definition put_api_services :: "db \<Rightarrow> request \<Rightarrow> db \<times> response" where
  "put_api_services db req =
     (let i = req_params_id req;
          b = req_body req;
          img = image_of_update req in
      case update_services_where_id db (b ''title'') (b ''description'') (b ''price'') img
             (b ''duration'') (b ''category'') (b ''is_available'') (b ''technician'') i of
        Inl error \<Rightarrow>
          (db, \<lparr>res_status = 500, res_body = ErrorJson ''Failed to update service''\<rparr>)
      | Inr db' \<Rightarrow> (db', \<lparr>res_status = 200, res_body = MessageJson ''Service updated''\<rparr>))"

definition delete_api_services :: "db \<Rightarrow> request \<Rightarrow> db \<times> response" where
  "delete_api_services db req =
     (let i = req_params_id req in
      case delete_from_services_where_id db i of
        Inl error \<Rightarrow>
          (db, \<lparr>res_status = 500, res_body = ErrorJson ''Failed to delete service''\<rparr>)
      | Inr db' \<Rightarrow> (db', \<lparr>res_status = 200, res_body = MessageJson ''Service deleted''\<rparr>))"

subsection \<open>The routes\<close>

datatype route =
    POST_api_register
  | POST_api_login
  | GET_api_devices
  | POST_api_devices
  | PUT_api_devices_id
  | DELETE_api_devices_id
  | GET_api_services
  | POST_api_services
  | PUT_api_services_id
  | DELETE_api_services_id

text \<open>
  One line for each registration \<open>app.METHOD(path, ...)\<close> of the server: whether
  \<open>authenticateToken\<close> stands before the handler, and the handler.
\<close>

fun registration :: "env \<Rightarrow> route \<Rightarrow> bool \<times> (db \<Rightarrow> request \<Rightarrow> db \<times> response)" where
  "registration env POST_api_register = (False, post_api_register)"
| "registration env POST_api_login = (False, post_api_login env)"
| "registration env GET_api_devices = (True, get_api_devices)"
| "registration env POST_api_devices = (True, post_api_devices)"
| "registration env PUT_api_devices_id = (True, put_api_devices)"
| "registration env DELETE_api_devices_id = (True, delete_api_devices)"
| "registration env GET_api_services = (True, get_api_services)"
| "registration env POST_api_services = (True, post_api_services)"
| "registration env PUT_api_services_id = (True, put_api_services)"
| "registration env DELETE_api_services_id = (True, delete_api_services)"

text \<open>The handler of a route, the last callback of its registration.\<close>

definition handler :: "env \<Rightarrow> route \<Rightarrow> db \<Rightarrow> request \<Rightarrow> db \<times> response" where
  "handler env r = snd (registration env r)"

text \<open>
  Express runs the callbacks of the matching registration in order. \<open>guarded env callback\<close>
  is \<open>authenticateToken\<close> followed by the next callback: when the middleware
  answers, the request ends there and the store is as it was; when it calls \<open>next()\<close>,
  the callback runs on the request the middleware has written to.
\<close>

definition guarded ::
  "env \<Rightarrow> (db \<Rightarrow> request \<Rightarrow> db \<times> response) \<Rightarrow> db \<Rightarrow> request \<Rightarrow> db \<times> response" where
  "guarded env callback db req =
     (case authenticateToken env req of
        Inl res \<Rightarrow> (db, res)
      | Inr req' \<Rightarrow> callback db req')"

definition app :: "env \<Rightarrow> route \<Rightarrow> db \<Rightarrow> request \<Rightarrow> db \<times> response" where
  "app env r db req =
     (if fst (registration env r)
      then guarded env (handler env r) db req
      else handler env r db req)"

subsection \<open>A library property and example values\<close>


text \<open>
  A small token library for the examples: the token of a payload is the secret, a dot
  and the role; a text that does not start with the secret and a dot is rejected, and
  so is every text when there is no secret.
\<close>

definition example_env :: env where
  "example_env =
     \<lparr>lib_sign = (\<lambda>p secret opts. Some (secret @ ''.'' @ p_role p)),
      jwt_verify = (\<lambda>t secret.
         case secret of
           None \<Rightarrow> None
         | Some k \<Rightarrow>
             if take (length k + 1) t = k @ ''.''
             then Some \<lparr>c_id = 0, c_role = drop (length k + 1) t, c_iat = 0, c_exp = 3600\<rparr>
             else None),
      JWT_SECRET = Some ''k''\<rparr>"

text \<open>
  A callback that answers with what it finds in \<open>req.user\<close>, to observe the request
  the middleware passes on.
\<close>

definition whoami :: "db \<Rightarrow> request \<Rightarrow> db \<times> response" where
  "whoami db req =
     (db, \<lparr>res_status = 200,
           res_body = MessageJson (case req_user req of
                                     None \<Rightarrow> ''nobody''
                                   | Some c \<Rightarrow> c_role c)\<rparr>)"

definition blank_device :: "nat \<Rightarrow> device" where
  "blank_device i =
     \<lparr>d_id = i, d_name = None, d_model = None, d_description = None, d_image = None,
      d_price = None, d_status = None, d_client_name = None, d_client_phone = None\<rparr>"

definition blank_service :: "nat \<Rightarrow> service" where
  "blank_service i =
     \<lparr>s_id = i, s_title = None, s_description = None, s_price = None, s_image = None,
      s_duration = None, s_category = None, s_is_available = None, s_technician = None\<rparr>"

definition example_db :: db where
  "example_db =
     \<lparr>online = True,
      users = [\<lparr>u_id = 1, u_email = ''a@x.com'', u_password = ''p'', u_role = ''user''\<rparr>],
      users_auto_increment = 2,
      devices = [blank_device 1, blank_device 2, blank_device 3, blank_device 4,
                 blank_device 5, blank_device 6, blank_device 7, blank_device 8,
                 blank_device 9, blank_device 10, blank_device 11],
      devices_auto_increment = 12,
      services = [blank_service 1, blank_service 2],
      services_auto_increment = 3\<rparr>"

definition example_request :: request where
  "example_request =
     \<lparr>req_headers_authorization = None, req_query = Map.empty, req_params_id = 0,
      req_body = Map.empty, req_file = None, req_user = None\<rparr>"

section \<open>Properties\<close>

subsection \<open>Parsing page and limit\<close>

declare decimal.simps [simp del]

lemma digit_of_decimal_char: "(d::nat) < 10 \<Longrightarrow> digit_of (char_of (48 + d)) = Some d"
  by (simp add: digit_of_def Let_def)

lemma is_radix_digit_decimal_char: "(d::nat) < 10 \<Longrightarrow> is_radix_digit 10 (char_of (48 + d))"
  by (simp add: is_radix_digit_def digit_of_decimal_char)

lemma digit_value_decimal_char: "(d::nat) < 10 \<Longrightarrow> digit_value (char_of (48 + d)) = d"
  by (simp add: digit_value_def digit_of_decimal_char)

lemma decimal_digits: "c \<in> set (decimal n) \<Longrightarrow> is_radix_digit 10 c"
proof (induction n arbitrary: c rule: decimal.induct)
  case (1 n)
  show ?case
  proof (cases "n < 10")
    case True
    with "1.prems" show ?thesis
      by (simp add: decimal.simps [of n] is_radix_digit_decimal_char)
  next
    case False
    with "1.prems" "1.IH" show ?thesis
      by (auto simp add: decimal.simps [of n] is_radix_digit_decimal_char)
  qed
qed

lemma decimal_nonempty: "decimal n \<noteq> []"
  by (simp add: decimal.simps [of n])

lemma digits_value_snoc: "digits_value R (Z @ [c]) = digits_value R Z * R + digit_value c"
  by (simp add: digits_value_def)

lemma digits_value_decimal: "digits_value 10 (decimal n) = n"
proof (induction n rule: decimal.induct)
  case (1 n)
  show ?case
  proof (cases "n < 10")
    case True
    then show ?thesis
      by (simp add: decimal.simps [of n] digits_value_def digit_value_decimal_char)
  next
    case False
    with "1.IH" show ?thesis
      by (simp add: decimal.simps [of n] digits_value_snoc digit_value_decimal_char)
  qed
qed

lemma radix_digit_not_space: "is_radix_digit 10 c \<Longrightarrow> \<not> is_StrWhiteSpaceChar c"
  by (auto simp add: is_radix_digit_def is_StrWhiteSpaceChar_def digit_of_def Let_def
      split: if_splits)

lemma radix_digit_not_sign:
  "is_radix_digit 10 c \<Longrightarrow>
   c \<noteq> CHR ''+'' \<and> c \<noteq> CHR ''-'' \<and> c \<noteq> CHR ''x'' \<and> c \<noteq> CHR ''X''"
  by (auto simp add: is_radix_digit_def digit_of_def Let_def split: if_splits)

text \<open>A non-empty text of decimal digits only parses to the number it writes.\<close>

lemma js_parseInt_all_digits:
  assumes ne: "s \<noteq> []" and dig: "\<forall>c\<in>set s. is_radix_digit 10 c"
  shows "js_parseInt s = Some (int (digits_value 10 s))"
proof -
  from ne dig have h: "is_radix_digit 10 (hd s)" by simp
  have ws: "dropWhile is_StrWhiteSpaceChar s = s"
    using ne h radix_digit_not_space by (cases s) auto
  have sg: "hd s \<noteq> CHR ''+''" "hd s \<noteq> CHR ''-''"
    using h radix_digit_not_sign by blast+
  have nx: "take 2 s \<noteq> ''0x''" "take 2 s \<noteq> ''0X''"
  proof -
    { fix c assume "take 2 s = [CHR ''0'', c]"
      then have "c \<in> set (take 2 s)" by simp
      then have "c \<in> set s" by (rule in_set_takeD)
      with dig have "is_radix_digit 10 c" by simp }
    then show "take 2 s \<noteq> ''0x''" "take 2 s \<noteq> ''0X''"
      using radix_digit_not_sign by blast+
  qed
  have tw: "takeWhile (is_radix_digit 10) s = s"
    using dig by (simp add: takeWhile_eq_all_conv)
  show ?thesis
    using ne by (simp add: js_parseInt_def Let_def ws sg nx tw)
qed

lemma js_parseInt_decimal: "js_parseInt (decimal n) = Some (int n)"
  using js_parseInt_all_digits [of "decimal n"] decimal_digits [of _ n]
  by (simp add: decimal_nonempty digits_value_decimal)

text \<open>A text with no digit after its white space and sign parses to \<open>NaN\<close>.\<close>

lemma js_parseInt_not_numeric:
  assumes "\<not> starts_numeric s"
  shows "js_parseInt s = None"
proof -
  define S where "S = dropWhile is_StrWhiteSpaceChar s"
  define S1 where
    "S1 = (if S \<noteq> [] \<and> (hd S = CHR ''+'' \<or> hd S = CHR ''-'') then tl S else S)"
  from assms have nd: "S1 = [] \<or> \<not> is_radix_digit 10 (hd S1)"
    unfolding starts_numeric_def Let_def S_def S1_def by blast
  have zero: "is_radix_digit 10 CHR ''0''"
    by (simp add: is_radix_digit_def digit_of_def)
  have nohex: "take 2 S1 \<noteq> ''0x''" "take 2 S1 \<noteq> ''0X''"
    using nd zero by (cases S1; auto)+
  have "takeWhile (is_radix_digit 10) S1 = []"
    using nd by (cases S1) auto
  then show ?thesis
    using nohex unfolding js_parseInt_def Let_def S_def [symmetric] S1_def [symmetric]
    by simp
qed

lemma parseInt_or_nonzero: "d \<noteq> 0 \<Longrightarrow> parseInt_or v d \<noteq> 0"
  by (simp add: parseInt_or_def split: option.splits)

lemma parseInt_or_decimal: "parseInt_or (Some (decimal n)) d = (if n = 0 then d else int n)"
  by (simp add: parseInt_or_def ToString_def js_parseInt_decimal)

lemma parseInt_or_not_numeric: "\<not> starts_numeric s \<Longrightarrow> parseInt_or (Some s) d = d"
  by (simp add: parseInt_or_def ToString_def js_parseInt_not_numeric)

lemma parseInt_or_absent: "parseInt_or None d = d"
  by (simp add: parseInt_or_def ToString_def js_parseInt_def is_StrWhiteSpaceChar_def
      is_radix_digit_def digit_of_def)

lemmas parseInt_eval =
  js_parseInt_def parseInt_or_def ToString_def is_StrWhiteSpaceChar_def is_radix_digit_def
  digit_of_def digit_value_def digits_value_def page_of_def limit_of_def

text \<open>
  C1, as the claim states it, fails: the text \<open>-5\<close> denotes no positive integer, and
  the page parsed from it is \<open>-5\<close>, not 1; the text \<open>5abc\<close> denotes no integer, and the
  limit parsed from it is 5, not 10.
\<close>

theorem page_limit_not_defaulted:
  "page_of [''page'' \<mapsto> ''-5'', ''limit'' \<mapsto> ''5abc''] = - 5 \<and>
   limit_of [''page'' \<mapsto> ''-5'', ''limit'' \<mapsto> ''5abc''] = 5"
  by (simp add: parseInt_eval)

text \<open>
  C1, amended. The page and the limit of a List request are
  \<open>parseInt(value) || default\<close>: they are 1 and 10 when the parameter is absent, when
  its value has no decimal digit after leading white space and one optional sign, and
  when it is the numeral 0; the decimal numeral of a positive integer \<open>n\<close> (up to
  \<open>2^53\<close>, where a JavaScript Number is still exact) gives \<open>n\<close>; and neither is ever 0.
  Nothing makes them positive: a value that \<open>parseInt\<close> reads as a negative integer is
  kept, and characters after the digits are ignored.
\<close>

theorem page_limit_parse_or_default:
  "page_of (q(''page'' := None)) = 1 \<and> limit_of (q(''limit'' := None)) = 10
   \<and> (\<not> starts_numeric s \<longrightarrow>
        page_of (q(''page'' \<mapsto> s)) = 1 \<and> limit_of (q(''limit'' \<mapsto> s)) = 10)
   \<and> page_of (q(''page'' \<mapsto> decimal 0)) = 1 \<and> limit_of (q(''limit'' \<mapsto> decimal 0)) = 10
   \<and> (0 < n \<and> n \<le> 2 ^ 53 \<longrightarrow>
        page_of (q(''page'' \<mapsto> decimal n)) = int n \<and>
        limit_of (q(''limit'' \<mapsto> decimal n)) = int n)
   \<and> page_of q \<noteq> 0 \<and> limit_of q \<noteq> 0"
  by (simp add: page_of_def limit_of_def parseInt_or_absent parseInt_or_not_numeric
      parseInt_or_decimal parseInt_or_nonzero)

theorem page_limit_parse_or_default_witness:
  "\<not> starts_numeric ''abc''
   \<and> page_of [''page'' \<mapsto> ''abc''] = 1 \<and> limit_of [''limit'' \<mapsto> ''abc''] = 10
   \<and> (0::nat) < 25 \<and> (25::nat) \<le> 2 ^ 53
   \<and> page_of [''page'' \<mapsto> ''25''] = 25 \<and> limit_of [''limit'' \<mapsto> ''25''] = 25"
proof -
  have a: "\<not> starts_numeric ''abc''"
    by (simp add: starts_numeric_def is_StrWhiteSpaceChar_def is_radix_digit_def digit_of_def)
  have d: "decimal 25 = ''25''"
    by code_simp
  show ?thesis
    using page_limit_parse_or_default [of Map.empty "''abc''" 25] a d by simp
qed

subsection \<open>The auth gate\<close>

lemma js_split_no_separator: "sep \<notin> set s \<Longrightarrow> js_split s sep = [s]"
  by (induction s) auto

lemma extract_token_no_space:
  "CHR '' '' \<notin> set h \<Longrightarrow>
   falsy (extract_token (req\<lparr>req_headers_authorization := Some h\<rparr>))"
  by (simp add: extract_token_def falsy_def Let_def js_split_no_separator js_index_def)

lemma authenticateToken_falsy:
  "falsy (extract_token req) \<Longrightarrow>
   authenticateToken env req =
     Inl \<lparr>res_status = 401, res_body = ErrorJson ''Token required''\<rparr>"
  by (simp add: authenticateToken_def)

lemma authenticateToken_invalid:
  "extract_token req = Some t \<Longrightarrow> t \<noteq> [] \<Longrightarrow> jwt_verify env t (JWT_SECRET env) = None \<Longrightarrow>
   authenticateToken env req =
     Inl \<lparr>res_status = 403, res_body = ErrorJson ''Invalid token''\<rparr>"
  by (simp add: authenticateToken_def falsy_def)

lemma authenticateToken_valid:
  "extract_token req = Some t \<Longrightarrow> t \<noteq> [] \<Longrightarrow> jwt_verify env t (JWT_SECRET env) = Some c \<Longrightarrow>
   authenticateToken env req = Inr (req\<lparr>req_user := Some c\<rparr>)"
  by (simp add: authenticateToken_def falsy_def)

lemma guarded_routes:
  "r \<notin> {POST_api_register, POST_api_login} \<Longrightarrow> fst (registration env r)"
  by (cases r) simp_all

lemmas example_eval =
  example_env_def example_db_def example_request_def extract_token_def falsy_def
  js_index_def authenticateToken_def app_def guarded_def handler_def

lemma app_guarded:
  "r \<notin> {POST_api_register, POST_api_login} \<Longrightarrow>
   app env r db req = guarded env (handler env r) db req"
  by (simp add: app_def guarded_routes)

lemma guarded_falsy:
  "falsy (extract_token req) \<Longrightarrow>
   guarded env callback db req =
     (db, \<lparr>res_status = 401, res_body = ErrorJson ''Token required''\<rparr>)"
  by (simp add: guarded_def authenticateToken_falsy)

lemma guarded_invalid:
  "extract_token req = Some t \<Longrightarrow> t \<noteq> [] \<Longrightarrow> jwt_verify env t (JWT_SECRET env) = None \<Longrightarrow>
   guarded env callback db req =
     (db, \<lparr>res_status = 403, res_body = ErrorJson ''Invalid token''\<rparr>)"
  by (simp add: guarded_def authenticateToken_invalid)

lemma guarded_valid:
  "extract_token req = Some t \<Longrightarrow> t \<noteq> [] \<Longrightarrow> jwt_verify env t (JWT_SECRET env) = Some c \<Longrightarrow>
   guarded env callback db req = callback db (req\<lparr>req_user := Some c\<rparr>)"
  by (simp add: guarded_def authenticateToken_valid)

text \<open>
  C3. Every route of \<open>/api/devices\<close> and \<open>/api/services\<close> is its handler behind
  \<open>authenticateToken\<close>. With no Authorization header, and more generally when no token
  is extracted from it, the middleware answers 401 \<open>Token required\<close> and the store is
  as it was. When the extracted token fails \<open>jwt.verify\<close> under the secret, it answers
  403 \<open>Invalid token\<close>. When the token verifies, the middleware calls \<open>next()\<close> with the
  request in which \<open>req.user\<close> is the decoded claims, and the answer is the one of the
  callback that follows on that request: of the route's handler, and of any callback put
  behind the middleware. The register and login routes run their handler at once,
  whatever the header.
\<close>

theorem auth_gate_guards_resources:
  "(r \<notin> {POST_api_register, POST_api_login} \<longrightarrow>
      app env r db req = guarded env (handler env r) db req
    \<and> app env r db (req\<lparr>req_headers_authorization := None\<rparr>) =
        (db, \<lparr>res_status = 401, res_body = ErrorJson ''Token required''\<rparr>)
    \<and> (falsy (extract_token req) \<longrightarrow>
         app env r db req = (db, \<lparr>res_status = 401, res_body = ErrorJson ''Token required''\<rparr>))
    \<and> (extract_token req = Some t \<and> t \<noteq> [] \<and> jwt_verify env t (JWT_SECRET env) = None \<longrightarrow>
         app env r db req = (db, \<lparr>res_status = 403, res_body = ErrorJson ''Invalid token''\<rparr>))
    \<and> (extract_token req = Some t \<and> t \<noteq> [] \<and> jwt_verify env t (JWT_SECRET env) = Some c \<longrightarrow>
         app env r db req = handler env r db (req\<lparr>req_user := Some c\<rparr>)))
   \<and> (falsy (extract_token req) \<longrightarrow>
        authenticateToken env req =
          Inl \<lparr>res_status = 401, res_body = ErrorJson ''Token required''\<rparr>
      \<and> guarded env callback db req =
          (db, \<lparr>res_status = 401, res_body = ErrorJson ''Token required''\<rparr>))
   \<and> (extract_token req = Some t \<and> t \<noteq> [] \<and> jwt_verify env t (JWT_SECRET env) = None \<longrightarrow>
        authenticateToken env req =
          Inl \<lparr>res_status = 403, res_body = ErrorJson ''Invalid token''\<rparr>
      \<and> guarded env callback db req =
          (db, \<lparr>res_status = 403, res_body = ErrorJson ''Invalid token''\<rparr>))
   \<and> (extract_token req = Some t \<and> t \<noteq> [] \<and> jwt_verify env t (JWT_SECRET env) = Some c \<longrightarrow>
        authenticateToken env req = Inr (req\<lparr>req_user := Some c\<rparr>)
      \<and> guarded env callback db req = callback db (req\<lparr>req_user := Some c\<rparr>))
   \<and> app env POST_api_register db req = post_api_register db req
   \<and> app env POST_api_login db req = post_api_login env db req"
proof -
  have bypass: "app env POST_api_register db req = post_api_register db req"
    "app env POST_api_login db req = post_api_login env db req"
    by (simp_all add: app_def handler_def)
  have none: "falsy (extract_token (req\<lparr>req_headers_authorization := None\<rparr>))"
    by (simp add: extract_token_def falsy_def)
  have gate: "falsy (extract_token req) \<longrightarrow>
        authenticateToken env req =
          Inl \<lparr>res_status = 401, res_body = ErrorJson ''Token required''\<rparr>
      \<and> guarded env callback db req =
          (db, \<lparr>res_status = 401, res_body = ErrorJson ''Token required''\<rparr>)"
    "extract_token req = Some t \<and> t \<noteq> [] \<and> jwt_verify env t (JWT_SECRET env) = None \<longrightarrow>
        authenticateToken env req =
          Inl \<lparr>res_status = 403, res_body = ErrorJson ''Invalid token''\<rparr>
      \<and> guarded env callback db req =
          (db, \<lparr>res_status = 403, res_body = ErrorJson ''Invalid token''\<rparr>)"
    "extract_token req = Some t \<and> t \<noteq> [] \<and> jwt_verify env t (JWT_SECRET env) = Some c \<longrightarrow>
        authenticateToken env req = Inr (req\<lparr>req_user := Some c\<rparr>)
      \<and> guarded env callback db req = callback db (req\<lparr>req_user := Some c\<rparr>)"
    by (simp_all add: authenticateToken_falsy authenticateToken_invalid
        authenticateToken_valid guarded_falsy guarded_invalid guarded_valid)
  have routes: "r \<notin> {POST_api_register, POST_api_login} \<longrightarrow>
      app env r db req = guarded env (handler env r) db req
    \<and> app env r db (req\<lparr>req_headers_authorization := None\<rparr>) =
        (db, \<lparr>res_status = 401, res_body = ErrorJson ''Token required''\<rparr>)
    \<and> (falsy (extract_token req) \<longrightarrow>
         app env r db req = (db, \<lparr>res_status = 401, res_body = ErrorJson ''Token required''\<rparr>))
    \<and> (extract_token req = Some t \<and> t \<noteq> [] \<and> jwt_verify env t (JWT_SECRET env) = None \<longrightarrow>
         app env r db req = (db, \<lparr>res_status = 403, res_body = ErrorJson ''Invalid token''\<rparr>))
    \<and> (extract_token req = Some t \<and> t \<noteq> [] \<and> jwt_verify env t (JWT_SECRET env) = Some c \<longrightarrow>
         app env r db req = handler env r db (req\<lparr>req_user := Some c\<rparr>))"
    using guarded_falsy [OF none, of env "handler env r" db]
    by (simp add: app_guarded guarded_falsy guarded_invalid guarded_valid)
  from routes gate bypass show ?thesis
    by blast
qed

theorem auth_gate_guards_resources_witness:
  "GET_api_devices \<notin> {POST_api_register, POST_api_login}
   \<and> falsy (extract_token (example_request\<lparr>req_headers_authorization := Some ''Bearer''\<rparr>))
   \<and> app example_env GET_api_devices example_db
        (example_request\<lparr>req_headers_authorization := Some ''Bearer''\<rparr>) =
        (example_db, \<lparr>res_status = 401, res_body = ErrorJson ''Token required''\<rparr>)
   \<and> extract_token (example_request\<lparr>req_headers_authorization := Some ''Bearer bad''\<rparr>) =
        Some ''bad''
   \<and> jwt_verify example_env ''bad'' (JWT_SECRET example_env) = None
   \<and> app example_env GET_api_devices example_db
        (example_request\<lparr>req_headers_authorization := Some ''Bearer bad''\<rparr>) =
        (example_db, \<lparr>res_status = 403, res_body = ErrorJson ''Invalid token''\<rparr>)
   \<and> extract_token (example_request\<lparr>req_headers_authorization := Some ''Bearer k.user''\<rparr>) =
        Some ''k.user''
   \<and> jwt_verify example_env ''k.user'' (JWT_SECRET example_env) =
        Some \<lparr>c_id = 0, c_role = ''user'', c_iat = 0, c_exp = 3600\<rparr>
   \<and> app example_env GET_api_devices example_db
        (example_request\<lparr>req_headers_authorization := Some ''Bearer k.user''\<rparr>) =
        handler example_env GET_api_devices example_db
          (example_request\<lparr>req_headers_authorization := Some ''Bearer k.user'',
             req_user := Some \<lparr>c_id = 0, c_role = ''user'', c_iat = 0, c_exp = 3600\<rparr>\<rparr>)
   \<and> req_user (example_request\<lparr>req_headers_authorization := Some ''Bearer k.user''\<rparr>) = None
   \<and> authenticateToken example_env
        (example_request\<lparr>req_headers_authorization := Some ''Bearer k.user''\<rparr>) =
        Inr (example_request\<lparr>req_headers_authorization := Some ''Bearer k.user'',
               req_user := Some \<lparr>c_id = 0, c_role = ''user'', c_iat = 0, c_exp = 3600\<rparr>\<rparr>)
   \<and> whoami example_db
        (example_request\<lparr>req_headers_authorization := Some ''Bearer k.user''\<rparr>) =
        (example_db, \<lparr>res_status = 200, res_body = MessageJson ''nobody''\<rparr>)
   \<and> guarded example_env whoami example_db
        (example_request\<lparr>req_headers_authorization := Some ''Bearer k.user''\<rparr>) =
        (example_db, \<lparr>res_status = 200, res_body = MessageJson ''user''\<rparr>)"
proof -
  let ?r1 = "example_request\<lparr>req_headers_authorization := Some ''Bearer''\<rparr>"
  let ?r2 = "example_request\<lparr>req_headers_authorization := Some ''Bearer bad''\<rparr>"
  let ?r3 = "example_request\<lparr>req_headers_authorization := Some ''Bearer k.user''\<rparr>"
  let ?c = "\<lparr>c_id = 0, c_role = ''user'', c_iat = 0, c_exp = 3600\<rparr>"
  have g: "GET_api_devices \<notin> {POST_api_register, POST_api_login}" by simp
  have t1: "falsy (extract_token ?r1)"
    by (simp add: extract_token_def falsy_def js_index_def example_request_def)
  have t2: "extract_token ?r2 = Some ''bad''"
    by (simp add: extract_token_def falsy_def js_index_def example_request_def)
  have v2: "jwt_verify example_env ''bad'' (JWT_SECRET example_env) = None"
    by (simp add: example_env_def)
  have t3: "extract_token ?r3 = Some ''k.user''"
    by (simp add: extract_token_def falsy_def js_index_def example_request_def)
  have v3: "jwt_verify example_env ''k.user'' (JWT_SECRET example_env) = Some ?c"
    by (simp add: example_env_def)
  have u3: "req_user ?r3 = None"
    by (simp add: example_request_def)
  have w3: "whoami example_db ?r3 =
      (example_db, \<lparr>res_status = 200, res_body = MessageJson ''nobody''\<rparr>)"
    "whoami example_db (?r3\<lparr>req_user := Some ?c\<rparr>) =
      (example_db, \<lparr>res_status = 200, res_body = MessageJson ''user''\<rparr>)"
    by (simp_all add: whoami_def example_request_def)
  have i1: "app example_env GET_api_devices example_db ?r1 =
      (example_db, \<lparr>res_status = 401, res_body = ErrorJson ''Token required''\<rparr>)"
    using auth_gate_guards_resources [where r = GET_api_devices and env = example_env
        and db = example_db and req = ?r1 and t = "''bad''" and c = ?c and callback = whoami]
      g t1
    by blast
  have i2: "app example_env GET_api_devices example_db ?r2 =
      (example_db, \<lparr>res_status = 403, res_body = ErrorJson ''Invalid token''\<rparr>)"
    using auth_gate_guards_resources [where r = GET_api_devices and env = example_env
        and db = example_db and req = ?r2 and t = "''bad''" and c = ?c and callback = whoami]
      g t2 v2
    by blast
  have i3: "app example_env GET_api_devices example_db ?r3 =
      handler example_env GET_api_devices example_db (?r3\<lparr>req_user := Some ?c\<rparr>)"
    "authenticateToken example_env ?r3 = Inr (?r3\<lparr>req_user := Some ?c\<rparr>)"
    "guarded example_env whoami example_db ?r3 =
      whoami example_db (?r3\<lparr>req_user := Some ?c\<rparr>)"
    using auth_gate_guards_resources [where r = GET_api_devices and env = example_env
        and db = example_db and req = ?r3 and t = "''k.user''" and c = ?c
        and callback = whoami]
      g t3 v3
    by blast+
  show ?thesis
    using g t1 t2 v2 t3 v3 u3 w3 i1 i2 i3 by simp
qed

text \<open>
  C9. When the Authorization header is present and holds no space, as a bare token
  does, \<open>split(' ')\<close> yields one component, \<open>[1]\<close> is \<open>undefined\<close>, and the middleware
  answers 401 \<open>Token required\<close>, which is its answer to a missing header. This holds for
  every token library, also one that would accept the text: \<open>jwt.verify\<close> is not
  consulted, so the answer is never 403 and \<open>next()\<close> is not called.
\<close>

theorem bare_token_is_token_required:
  "CHR '' '' \<notin> set h \<Longrightarrow>
   authenticateToken env (req\<lparr>req_headers_authorization := Some h\<rparr>) =
     Inl \<lparr>res_status = 401, res_body = ErrorJson ''Token required''\<rparr>
   \<and> authenticateToken env (req\<lparr>req_headers_authorization := Some h\<rparr>) =
       authenticateToken env (req\<lparr>req_headers_authorization := None\<rparr>)
   \<and> (r \<notin> {POST_api_register, POST_api_login} \<longrightarrow>
        app env r db (req\<lparr>req_headers_authorization := Some h\<rparr>) =
          (db, \<lparr>res_status = 401, res_body = ErrorJson ''Token required''\<rparr>))"
proof -
  assume h: "CHR '' '' \<notin> set h"
  have none: "falsy (extract_token (req\<lparr>req_headers_authorization := None\<rparr>))"
    by (simp add: extract_token_def falsy_def)
  note f = extract_token_no_space [OF h, of req]
  show ?thesis
    using guarded_routes [of r env]
    by (simp add: app_def guarded_def authenticateToken_falsy [OF f]
        authenticateToken_falsy [OF none])
qed

theorem bare_token_is_token_required_witness:
  "CHR '' '' \<notin> set ''k.user''
   \<and> jwt_verify example_env ''k.user'' (JWT_SECRET example_env) \<noteq> None
   \<and> authenticateToken example_env
        (example_request\<lparr>req_headers_authorization := Some ''k.user''\<rparr>) =
        Inl \<lparr>res_status = 401, res_body = ErrorJson ''Token required''\<rparr>
   \<and> app example_env DELETE_api_services_id example_db
        (example_request\<lparr>req_headers_authorization := Some ''k.user''\<rparr>) =
        (example_db, \<lparr>res_status = 401, res_body = ErrorJson ''Token required''\<rparr>)"
proof -
  have h: "CHR '' '' \<notin> set ''k.user''" by simp
  have v: "jwt_verify example_env ''k.user'' (JWT_SECRET example_env) \<noteq> None"
    by (simp add: example_env_def)
  show ?thesis
    using h v
      bare_token_is_token_required [OF h, of example_env example_request
        DELETE_api_services_id example_db]
    by simp
qed

subsection \<open>Listing\<close>

lemma get_api_devices_store: "fst (get_api_devices db req) = db"
  by (simp add: get_api_devices_def Let_def split: sum.splits)

lemma get_api_services_store: "fst (get_api_services db req) = db"
  by (simp add: get_api_services_def Let_def split: sum.splits)

lemma app_store_of_handler:
  assumes "\<And>req'. fst (handler env r db req') = db"
  shows "fst (app env r db req) = db"
  using assms by (simp add: app_def guarded_def split: sum.splits)

text \<open>
  C10. Listing is read-only: whatever the store and the query, and whether the queries
  succeed or are rejected, the handlers of \<open>GET /api/devices\<close> and
  \<open>GET /api/services\<close> hand back the store they were given, with every table as it
  was; so do the two routes as a whole, the middleware included.
\<close>

theorem list_is_read_only:
  "fst (get_api_devices db req) = db \<and> fst (get_api_services db req) = db
   \<and> fst (app env GET_api_devices db req) = db
   \<and> fst (app env GET_api_services db req) = db"
proof -
  have "fst (app env GET_api_devices db req) = db"
    by (rule app_store_of_handler) (simp add: handler_def get_api_devices_store)
  moreover have "fst (app env GET_api_services db req) = db"
    by (rule app_store_of_handler) (simp add: handler_def get_api_services_store)
  ultimately show ?thesis
    by (simp add: get_api_devices_store get_api_services_store)
qed

theorem list_is_read_only_witness:
  "app example_env GET_api_devices example_db
     (example_request\<lparr>req_headers_authorization := Some ''Bearer k.user'',
        req_query := [''page'' \<mapsto> ''2'', ''limit'' \<mapsto> ''5'']\<rparr>) =
     (example_db,
      \<lparr>res_status = 200,
       res_body = DevicesJson [blank_device 6, blank_device 7, blank_device 8,
                     blank_device 9, blank_device 10] 11 2 5\<rparr>)"
proof -
  let ?req = "example_request\<lparr>req_headers_authorization := Some ''Bearer k.user'',
        req_query := [''page'' \<mapsto> ''2'', ''limit'' \<mapsto> ''5'']\<rparr>"
  have "snd (app example_env GET_api_devices example_db ?req) = 
      \<lparr>res_status = 200,
       res_body = DevicesJson [blank_device 6, blank_device 7, blank_device 8,
                     blank_device 9, blank_device 10] 11 2 5\<rparr>"
    by (simp add: example_eval get_api_devices_def parseInt_eval select_limit_offset_def
        select_count_def)
  then show ?thesis
    using list_is_read_only [of example_db ?req example_env]
    by (simp add: prod_eq_iff)
qed

lemma slice_length: "length (take n (drop k xs)) = min n (length xs - k)"
  by simp

lemma slice_nth: "i < length (take n (drop k xs)) \<Longrightarrow> take n (drop k xs) ! i = xs ! (k + i)"
proof -
  assume "i < length (take n (drop k xs))"
  then have "i < n" "k \<le> length xs" by auto
  then show ?thesis by (simp add: nth_drop)
qed

lemma slice_second_five:
  assumes "10 \<le> length xs"
  shows "take 5 (drop 5 xs) = [xs ! 5, xs ! 6, xs ! 7, xs ! 8, xs ! 9]"
proof (rule nth_equalityI)
  show "length (take 5 (drop 5 xs)) = length [xs ! 5, xs ! 6, xs ! 7, xs ! 8, xs ! 9]"
    using assms by simp
next
  fix i assume "i < length (take 5 (drop 5 xs))"
  then have "i < 5" by simp
  then consider "i = 0" | "i = 1" | "i = 2" | "i = 3" | "i = 4" by linarith
  then show "take 5 (drop 5 xs) ! i = [xs ! 5, xs ! 6, xs ! 7, xs ! 8, xs ! 9] ! i"
    using assms by cases simp_all
qed

lemma select_limit_offset_ok:
  "up \<Longrightarrow> 0 \<le> limit \<Longrightarrow> 0 \<le> offset \<Longrightarrow>
   select_limit_offset up rows limit offset = Inr (take (nat limit) (drop (nat offset) rows))"
  by (simp add: select_limit_offset_def)

lemma get_api_devices_ok:
  assumes "online db" "0 < page_of (req_query req)" "0 < limit_of (req_query req)"
  shows "get_api_devices db req =
     (db, \<lparr>res_status = 200,
           res_body = DevicesJson
             (take (nat (limit_of (req_query req)))
                (drop (nat ((page_of (req_query req) - 1) * limit_of (req_query req)))
                   (devices db)))
             (length (devices db)) (page_of (req_query req)) (limit_of (req_query req))\<rparr>)"
proof -
  from assms have "0 \<le> (page_of (req_query req) - 1) * limit_of (req_query req)"
    by simp
  with assms show ?thesis
    by (simp add: get_api_devices_def Let_def select_limit_offset_ok select_count_def)
qed

lemma get_api_services_ok:
  assumes "online db" "0 < page_of (req_query req)" "0 < limit_of (req_query req)"
  shows "get_api_services db req =
     (db, \<lparr>res_status = 200,
           res_body = ServicesJson
             (take (nat (limit_of (req_query req)))
                (drop (nat ((page_of (req_query req) - 1) * limit_of (req_query req)))
                   (services db)))
             (length (services db)) (page_of (req_query req)) (limit_of (req_query req))\<rparr>)"
proof -
  from assms have "0 \<le> (page_of (req_query req) - 1) * limit_of (req_query req)"
    by simp
  with assms show ?thesis
    by (simp add: get_api_services_def Let_def select_limit_offset_ok select_count_def)
qed

text \<open>
  C7, as the claim states it for every List request, fails: with \<open>limit=-5\<close> the
  limit is \<open>-5\<close>, the store rejects the statement, and the answer is 500 with no rows
  and no total.
\<close>

theorem list_negative_limit_fails:
  "get_api_devices example_db (example_request\<lparr>req_query := [''limit'' \<mapsto> ''-5'']\<rparr>) =
     (example_db, \<lparr>res_status = 500, res_body = ErrorJson ''Failed to fetch devices''\<rparr>)"
  by (simp add: get_api_devices_def example_request_def parseInt_eval select_limit_offset_def)


text \<open>The positive case: both handlers answer with the slice and the count.\<close>

lemma list_slice_when_positive:
  assumes "online db"
    and "0 < page_of (req_query req)" and "0 < limit_of (req_query req)"
    and "limit_of (req_query req) < 2 ^ 53"
    and "(page_of (req_query req) - 1) * limit_of (req_query req) < 2 ^ 53"
  shows "\<exists>rows_d rows_s.
      get_api_devices db req =
        (db, \<lparr>res_status = 200,
              res_body = DevicesJson rows_d (length (devices db))
                           (page_of (req_query req)) (limit_of (req_query req))\<rparr>)
    \<and> length rows_d =
        min (nat (limit_of (req_query req)))
          (length (devices db) - nat ((page_of (req_query req) - 1) * limit_of (req_query req)))
    \<and> (\<forall>k<length rows_d.
          rows_d ! k =
          devices db ! (nat ((page_of (req_query req) - 1) * limit_of (req_query req)) + k))
    \<and> (page_of (req_query req) = 2 \<and> limit_of (req_query req) = 5 \<and> 10 \<le> length (devices db)
         \<longrightarrow> rows_d = [devices db ! 5, devices db ! 6, devices db ! 7, devices db ! 8,
                        devices db ! 9])
    \<and> get_api_services db req =
        (db, \<lparr>res_status = 200,
              res_body = ServicesJson rows_s (length (services db))
                           (page_of (req_query req)) (limit_of (req_query req))\<rparr>)
    \<and> length rows_s =
        min (nat (limit_of (req_query req)))
          (length (services db) - nat ((page_of (req_query req) - 1) * limit_of (req_query req)))
    \<and> (\<forall>k<length rows_s.
          rows_s ! k =
          services db ! (nat ((page_of (req_query req) - 1) * limit_of (req_query req)) + k))
    \<and> (page_of (req_query req) = 2 \<and> limit_of (req_query req) = 5 \<and> 10 \<le> length (services db)
         \<longrightarrow> rows_s = [services db ! 5, services db ! 6, services db ! 7, services db ! 8,
                        services db ! 9])"
proof -
  define page where "page = page_of (req_query req)"
  define limit where "limit = limit_of (req_query req)"
  define offset where "offset = nat ((page - 1) * limit)"
  define rows_d where "rows_d = take (nat limit) (drop offset (devices db))"
  define rows_s where "rows_s = take (nat limit) (drop offset (services db))"
  have d1: "get_api_devices db req =
      (db, \<lparr>res_status = 200, res_body = DevicesJson rows_d (length (devices db)) page limit\<rparr>)"
    using get_api_devices_ok [OF assms(1-3)]
    by (simp add: rows_d_def offset_def page_def limit_def)
  have s1: "get_api_services db req =
      (db, \<lparr>res_status = 200, res_body = ServicesJson rows_s (length (services db)) page limit\<rparr>)"
    using get_api_services_ok [OF assms(1-3)]
    by (simp add: rows_s_def offset_def page_def limit_def)
  have d2: "length rows_d = min (nat limit) (length (devices db) - offset)"
    unfolding rows_d_def by (rule slice_length)
  have s2: "length rows_s = min (nat limit) (length (services db) - offset)"
    unfolding rows_s_def by (rule slice_length)
  have d3: "\<forall>k<length rows_d. rows_d ! k = devices db ! (offset + k)"
    unfolding rows_d_def using slice_nth by blast
  have s3: "\<forall>k<length rows_s. rows_s ! k = services db ! (offset + k)"
    unfolding rows_s_def using slice_nth by blast
  have d4: "page = 2 \<and> limit = 5 \<and> 10 \<le> length (devices db) \<longrightarrow>
      rows_d = [devices db ! 5, devices db ! 6, devices db ! 7, devices db ! 8, devices db ! 9]"
    using slice_second_five [of "devices db"] by (simp add: rows_d_def offset_def)
  have s4: "page = 2 \<and> limit = 5 \<and> 10 \<le> length (services db) \<longrightarrow>
      rows_s = [services db ! 5, services db ! 6, services db ! 7, services db ! 8,
                services db ! 9]"
    using slice_second_five [of "services db"] by (simp add: rows_s_def offset_def)
  from d1 d2 d3 d4 s1 s2 s3 s4 show ?thesis
    unfolding page_def limit_def offset_def by blast
qed

text \<open>
  The negative case: the limit is never 0, so a negative page with a positive limit
  makes the offset negative, and a negative limit is rejected as it is.
\<close>

lemma negative_limit_or_offset:
  assumes "page_of q < 0 \<or> limit_of q < 0"
  shows "\<not> (0 \<le> limit_of q \<and> 0 \<le> (page_of q - 1) * limit_of q)"
proof
  assume h: "0 \<le> limit_of q \<and> 0 \<le> (page_of q - 1) * limit_of q"
  have "limit_of q \<noteq> 0"
    by (simp add: limit_of_def parseInt_or_nonzero)
  with h have l: "0 < limit_of q" by simp
  with assms have "page_of q - 1 < 0" by simp
  from this l have "(page_of q - 1) * limit_of q < 0"
    by (rule mult_neg_pos)
  with h show False by simp
qed

lemma list_rejected_when_negative:
  assumes "page_of (req_query req) < 0 \<or> limit_of (req_query req) < 0"
  shows "get_api_devices db req =
      (db, \<lparr>res_status = 500, res_body = ErrorJson ''Failed to fetch devices''\<rparr>)"
    and "get_api_services db req =
      (db, \<lparr>res_status = 500, res_body = ErrorJson ''Failed to fetch services''\<rparr>)"
proof -
  have rejected: "select_limit_offset up rows (limit_of (req_query req))
      ((page_of (req_query req) - 1) * limit_of (req_query req)) = Inl QueryRejected"
    for up and rows :: "'r list"
    using negative_limit_or_offset [OF assms] by (auto simp add: select_limit_offset_def)
  show "get_api_devices db req =
      (db, \<lparr>res_status = 500, res_body = ErrorJson ''Failed to fetch devices''\<rparr>)"
    by (simp add: get_api_devices_def Let_def rejected)
  show "get_api_services db req =
      (db, \<lparr>res_status = 500, res_body = ErrorJson ''Failed to fetch services''\<rparr>)"
    by (simp add: get_api_services_def Let_def rejected)
qed

text \<open>
  C7, amended. For every List request whose page and limit are positive (and, with the
  offset, below \<open>2^53\<close>, where JavaScript computes them exactly), on a store that
  answers: the response is 200, its rows are the rows of the table from offset
  \<open>(page - 1) * limit\<close> on, in the store's order, at most \<open>limit\<close> of them and fewer
  only where the table ends; the total is the number of rows of the whole table,
  whatever the page and limit; and page and limit are echoed. With page 2 and limit 5
  on a table of at least 10 rows, the rows are the sixth to the tenth. For every List
  request whose page or limit is negative, on either route and whatever the store, the
  statement is rejected and the response is 500 with no rows and no total.
\<close>

theorem list_returns_slice:
  "(online db \<and> 0 < page_of (req_query req) \<and> 0 < limit_of (req_query req)
    \<and> limit_of (req_query req) < 2 ^ 53
    \<and> (page_of (req_query req) - 1) * limit_of (req_query req) < 2 ^ 53 \<longrightarrow>
    (\<exists>rows_d rows_s.
      get_api_devices db req =
        (db, \<lparr>res_status = 200,
              res_body = DevicesJson rows_d (length (devices db))
                           (page_of (req_query req)) (limit_of (req_query req))\<rparr>)
    \<and> length rows_d =
        min (nat (limit_of (req_query req)))
          (length (devices db) - nat ((page_of (req_query req) - 1) * limit_of (req_query req)))
    \<and> (\<forall>k<length rows_d.
          rows_d ! k =
          devices db ! (nat ((page_of (req_query req) - 1) * limit_of (req_query req)) + k))
    \<and> (page_of (req_query req) = 2 \<and> limit_of (req_query req) = 5 \<and> 10 \<le> length (devices db)
         \<longrightarrow> rows_d = [devices db ! 5, devices db ! 6, devices db ! 7, devices db ! 8,
                        devices db ! 9])
    \<and> get_api_services db req =
        (db, \<lparr>res_status = 200,
              res_body = ServicesJson rows_s (length (services db))
                           (page_of (req_query req)) (limit_of (req_query req))\<rparr>)
    \<and> length rows_s =
        min (nat (limit_of (req_query req)))
          (length (services db) - nat ((page_of (req_query req) - 1) * limit_of (req_query req)))
    \<and> (\<forall>k<length rows_s.
          rows_s ! k =
          services db ! (nat ((page_of (req_query req) - 1) * limit_of (req_query req)) + k))
    \<and> (page_of (req_query req) = 2 \<and> limit_of (req_query req) = 5 \<and> 10 \<le> length (services db)
         \<longrightarrow> rows_s = [services db ! 5, services db ! 6, services db ! 7, services db ! 8,
                        services db ! 9])))
   \<and> (page_of (req_query req) < 0 \<or> limit_of (req_query req) < 0 \<longrightarrow>
        get_api_devices db req =
          (db, \<lparr>res_status = 500, res_body = ErrorJson ''Failed to fetch devices''\<rparr>)
      \<and> get_api_services db req =
          (db, \<lparr>res_status = 500, res_body = ErrorJson ''Failed to fetch services''\<rparr>))"
  using list_slice_when_positive [of db req] list_rejected_when_negative [of req db]
  by blast

theorem list_returns_slice_witness:
  "online example_db
   \<and> page_of [''page'' \<mapsto> ''2'', ''limit'' \<mapsto> ''5''] = 2
   \<and> limit_of [''page'' \<mapsto> ''2'', ''limit'' \<mapsto> ''5''] = 5
   \<and> get_api_devices example_db
        (example_request\<lparr>req_query := [''page'' \<mapsto> ''2'', ''limit'' \<mapsto> ''5'']\<rparr>) =
        (example_db,
         \<lparr>res_status = 200,
          res_body = DevicesJson [blank_device 6, blank_device 7, blank_device 8,
                        blank_device 9, blank_device 10] 11 2 5\<rparr>)
   \<and> get_api_services example_db
        (example_request\<lparr>req_query := [''page'' \<mapsto> ''2'', ''limit'' \<mapsto> ''5'']\<rparr>) =
        (example_db, \<lparr>res_status = 200, res_body = ServicesJson [] 2 2 5\<rparr>)
   \<and> page_of [''page'' \<mapsto> ''-1''] = - 1
   \<and> limit_of [''page'' \<mapsto> ''-1''] = 10
   \<and> get_api_devices example_db (example_request\<lparr>req_query := [''page'' \<mapsto> ''-1'']\<rparr>) =
        (example_db, \<lparr>res_status = 500, res_body = ErrorJson ''Failed to fetch devices''\<rparr>)
   \<and> get_api_services example_db (example_request\<lparr>req_query := [''page'' \<mapsto> ''-1'']\<rparr>) =
        (example_db, \<lparr>res_status = 500, res_body = ErrorJson ''Failed to fetch services''\<rparr>)"
proof -
  let ?q = "[''page'' \<mapsto> ''2'', ''limit'' \<mapsto> ''5'']"
  let ?req = "example_request\<lparr>req_query := ?q\<rparr>"
  let ?n = "[''page'' \<mapsto> ''-1'']"
  let ?neg = "example_request\<lparr>req_query := ?n\<rparr>"
  have q: "req_query ?req = ?q" "req_query ?neg = ?n" by simp_all
  have up: "online example_db" by (simp add: example_db_def)
  have pg: "page_of ?q = 2" by (simp add: parseInt_eval)
  have lm: "limit_of ?q = 5" by (simp add: parseInt_eval)
  have npg: "page_of ?n = - 1" by (simp add: parseInt_eval)
  have nlm: "limit_of ?n = 10" by (simp add: parseInt_eval)
  have dv: "devices example_db =
      [blank_device 1, blank_device 2, blank_device 3, blank_device 4,
       blank_device 5, blank_device 6, blank_device 7, blank_device 8,
       blank_device 9, blank_device 10, blank_device 11]"
    and sv: "services example_db = [blank_service 1, blank_service 2]"
    by (simp_all add: example_db_def)
  have pos: "get_api_devices example_db ?req =
        (example_db,
         \<lparr>res_status = 200,
          res_body = DevicesJson [blank_device 6, blank_device 7, blank_device 8,
                        blank_device 9, blank_device 10] 11 2 5\<rparr>)
      \<and> get_api_services example_db ?req =
        (example_db, \<lparr>res_status = 200, res_body = ServicesJson [] 2 2 5\<rparr>)"
    using list_returns_slice [of example_db ?req] up pg lm
    unfolding q pg lm dv sv by auto
  have neg: "get_api_devices example_db ?neg =
        (example_db, \<lparr>res_status = 500, res_body = ErrorJson ''Failed to fetch devices''\<rparr>)
      \<and> get_api_services example_db ?neg =
        (example_db, \<lparr>res_status = 500, res_body = ErrorJson ''Failed to fetch services''\<rparr>)"
    using list_returns_slice [of example_db ?neg]
    unfolding q npg nlm by simp
  from up pg lm npg nlm pos neg show ?thesis
    by blast
qed

subsection \<open>Update, delete and the image reference\<close>

lemma map_unmatched: "\<forall>r\<in>set rows. key r \<noteq> i \<Longrightarrow> map (\<lambda>r. if key r = i then f r else r) rows = rows"
  by (induction rows) simp_all

lemma filter_unmatched: "\<forall>r\<in>set rows. key r \<noteq> i \<Longrightarrow> filter (\<lambda>r. key r \<noteq> i) rows = rows"
  by (induction rows) simp_all

lemma put_api_devices_missing:
  assumes "online db" "req_params_id req \<notin> d_id ` set (devices db)"
  shows "put_api_devices db req =
    (db, \<lparr>res_status = 200, res_body = MessageJson ''Device updated''\<rparr>)"
proof -
  from assms(2) have "\<forall>r\<in>set (devices db). d_id r \<noteq> req_params_id req" by force
  then show ?thesis
    using assms(1)
    by (simp add: put_api_devices_def update_devices_where_id_def Let_def map_unmatched)
qed

lemma delete_api_devices_missing:
  assumes "online db" "req_params_id req \<notin> d_id ` set (devices db)"
  shows "delete_api_devices db req =
    (db, \<lparr>res_status = 200, res_body = MessageJson ''Device deleted''\<rparr>)"
proof -
  from assms(2) have "\<forall>r\<in>set (devices db). d_id r \<noteq> req_params_id req" by force
  then show ?thesis
    using assms(1)
    by (simp add: delete_api_devices_def delete_from_devices_where_id_def Let_def
        filter_unmatched)
qed

lemma put_api_services_missing:
  assumes "online db" "req_params_id req \<notin> s_id ` set (services db)"
  shows "put_api_services db req =
    (db, \<lparr>res_status = 200, res_body = MessageJson ''Service updated''\<rparr>)"
proof -
  from assms(2) have "\<forall>r\<in>set (services db). s_id r \<noteq> req_params_id req" by force
  then show ?thesis
    using assms(1)
    by (simp add: put_api_services_def update_services_where_id_def Let_def map_unmatched)
qed

lemma delete_api_services_missing:
  assumes "online db" "req_params_id req \<notin> s_id ` set (services db)"
  shows "delete_api_services db req =
    (db, \<lparr>res_status = 200, res_body = MessageJson ''Service deleted''\<rparr>)"
proof -
  from assms(2) have "\<forall>r\<in>set (services db). s_id r \<noteq> req_params_id req" by force
  then show ?thesis
    using assms(1)
    by (simp add: delete_api_services_def delete_from_services_where_id_def Let_def
        filter_unmatched)
qed

text \<open>
  C2. On a store that answers, for every id that no row of the table has and every
  request body and upload: the handlers of \<open>PUT /api/devices/:id\<close> and
  \<open>DELETE /api/devices/:id\<close> answer 200 with their message of success, and the store
  they hand back is the store they were given, every row of every table as it was; the
  same for \<open>services\<close>. No handler looks the id up first.
\<close>

theorem update_delete_missing_id_noop:
  assumes "online db"
  shows "(req_params_id req \<notin> d_id ` set (devices db) \<longrightarrow>
            put_api_devices db req =
              (db, \<lparr>res_status = 200, res_body = MessageJson ''Device updated''\<rparr>)
          \<and> delete_api_devices db req =
              (db, \<lparr>res_status = 200, res_body = MessageJson ''Device deleted''\<rparr>))
       \<and> (req_params_id req \<notin> s_id ` set (services db) \<longrightarrow>
            put_api_services db req =
              (db, \<lparr>res_status = 200, res_body = MessageJson ''Service updated''\<rparr>)
          \<and> delete_api_services db req =
              (db, \<lparr>res_status = 200, res_body = MessageJson ''Service deleted''\<rparr>))"
  using assms
  by (simp add: put_api_devices_missing delete_api_devices_missing put_api_services_missing
      delete_api_services_missing)

theorem update_delete_missing_id_noop_witness:
  "online example_db
   \<and> (99::nat) \<notin> d_id ` set (devices example_db)
   \<and> (99::nat) \<notin> s_id ` set (services example_db)
   \<and> put_api_devices example_db
        (example_request\<lparr>req_params_id := 99, req_body := [''name'' \<mapsto> ''Phone'']\<rparr>) =
        (example_db, \<lparr>res_status = 200, res_body = MessageJson ''Device updated''\<rparr>)
   \<and> delete_api_devices example_db
        (example_request\<lparr>req_params_id := 99, req_body := [''name'' \<mapsto> ''Phone'']\<rparr>) =
        (example_db, \<lparr>res_status = 200, res_body = MessageJson ''Device deleted''\<rparr>)
   \<and> put_api_services example_db
        (example_request\<lparr>req_params_id := 99, req_body := [''name'' \<mapsto> ''Phone'']\<rparr>) =
        (example_db, \<lparr>res_status = 200, res_body = MessageJson ''Service updated''\<rparr>)
   \<and> delete_api_services example_db
        (example_request\<lparr>req_params_id := 99, req_body := [''name'' \<mapsto> ''Phone'']\<rparr>) =
        (example_db, \<lparr>res_status = 200, res_body = MessageJson ''Service deleted''\<rparr>)"
proof -
  let ?req = "example_request\<lparr>req_params_id := 99, req_body := [''name'' \<mapsto> ''Phone'']\<rparr>"
  have up: "online example_db" by (simp add: example_db_def)
  have d: "(99::nat) \<notin> d_id ` set (devices example_db)"
    by (simp add: example_db_def blank_device_def)
  have s: "(99::nat) \<notin> s_id ` set (services example_db)"
    by (simp add: example_db_def blank_service_def)
  have i: "req_params_id ?req = 99" by simp
  show ?thesis
    using update_delete_missing_id_noop [OF up, of ?req] up d s
    unfolding i by simp
qed


lemma post_api_devices_row:
  "online db \<Longrightarrow>
   \<exists>row. devices (fst (post_api_devices db req)) = devices db @ [row]
       \<and> d_image row = image_of_create req"
  by (simp add: post_api_devices_def insert_into_devices_def Let_def)

lemma post_api_services_row:
  "online db \<Longrightarrow>
   \<exists>row. services (fst (post_api_services db req)) = services db @ [row]
       \<and> s_image row = image_of_create req"
  by (simp add: post_api_services_def insert_into_services_def Let_def)

lemma put_api_devices_row:
  "online db \<Longrightarrow> row \<in> set (devices (fst (put_api_devices db req))) \<Longrightarrow>
   d_id row = req_params_id req \<Longrightarrow> d_image row = image_of_update req"
  by (auto simp add: put_api_devices_def update_devices_where_id_def Let_def split: if_splits)

lemma put_api_services_row:
  "online db \<Longrightarrow> row \<in> set (services (fst (put_api_services db req))) \<Longrightarrow>
   s_id row = req_params_id req \<Longrightarrow> s_image row = image_of_update req"
  by (auto simp add: put_api_services_def update_services_where_id_def Let_def split: if_splits)

lemma put_api_devices_ids:
  "online db \<Longrightarrow> map d_id (devices (fst (put_api_devices db req))) = map d_id (devices db)"
  by (simp add: put_api_devices_def update_devices_where_id_def Let_def comp_def if_distrib
      cong: if_cong)

lemma put_api_services_ids:
  "online db \<Longrightarrow> map s_id (services (fst (put_api_services db req))) = map s_id (services db)"
  by (simp add: put_api_services_def update_services_where_id_def Let_def comp_def if_distrib
      cong: if_cong)

text \<open>
  C8. On a store that answers, a Create request appends one row whose image is
  \<open>/uploads/\<close> followed by the stored name of the upload when a file is attached, and
  the placeholder \<open>/uploads/placeholder.jpg\<close> when none is. After an Update request,
  every row with the id of the request has as image \<open>/uploads/\<close> followed by the
  stored name of the upload when a file is attached, and otherwise the \<open>image\<close> field
  of the body as it was sent (\<open>NULL\<close> when the body has none); an update leaves the ids
  of the table as they were. Devices and services alike.
\<close>

theorem image_reference_resolution:
  assumes "online db"
  shows "(\<exists>row. devices (fst (post_api_devices db (req\<lparr>req_file := Some f\<rparr>))) = devices db @ [row]
            \<and> d_image row = Some (''/uploads/'' @ filename f))
       \<and> (\<exists>row. devices (fst (post_api_devices db (req\<lparr>req_file := None\<rparr>))) = devices db @ [row]
            \<and> d_image row = Some ''/uploads/placeholder.jpg'')
       \<and> (\<exists>row. services (fst (post_api_services db (req\<lparr>req_file := Some f\<rparr>))) =
              services db @ [row]
            \<and> s_image row = Some (''/uploads/'' @ filename f))
       \<and> (\<exists>row. services (fst (post_api_services db (req\<lparr>req_file := None\<rparr>))) =
              services db @ [row]
            \<and> s_image row = Some ''/uploads/placeholder.jpg'')
       \<and> (\<forall>row\<in>set (devices (fst (put_api_devices db (req\<lparr>req_file := Some f\<rparr>)))).
             d_id row = req_params_id req \<longrightarrow> d_image row = Some (''/uploads/'' @ filename f))
       \<and> (\<forall>row\<in>set (devices (fst (put_api_devices db (req\<lparr>req_file := None\<rparr>)))).
             d_id row = req_params_id req \<longrightarrow> d_image row = req_body req ''image'')
       \<and> (\<forall>row\<in>set (services (fst (put_api_services db (req\<lparr>req_file := Some f\<rparr>)))).
             s_id row = req_params_id req \<longrightarrow> s_image row = Some (''/uploads/'' @ filename f))
       \<and> (\<forall>row\<in>set (services (fst (put_api_services db (req\<lparr>req_file := None\<rparr>)))).
             s_id row = req_params_id req \<longrightarrow> s_image row = req_body req ''image'')
       \<and> map d_id (devices (fst (put_api_devices db req))) = map d_id (devices db)
       \<and> map s_id (services (fst (put_api_services db req))) = map s_id (services db)"
proof -
  let ?with = "req\<lparr>req_file := Some f\<rparr>"
  let ?without = "req\<lparr>req_file := None\<rparr>"
  have c: "image_of_create ?with = Some (''/uploads/'' @ filename f)"
    "image_of_create ?without = Some ''/uploads/placeholder.jpg''"
    by (simp_all add: image_of_create_def)
  have u: "image_of_update ?with = Some (''/uploads/'' @ filename f)"
    "image_of_update ?without = req_body req ''image''"
    by (simp_all add: image_of_update_def)
  have i: "req_params_id ?with = req_params_id req" "req_params_id ?without = req_params_id req"
    by simp_all
  note up = assms
  show ?thesis
    using post_api_devices_row [OF up, of ?with] post_api_devices_row [OF up, of ?without]
      post_api_services_row [OF up, of ?with] post_api_services_row [OF up, of ?without]
      put_api_devices_row [OF up, of _ ?with] put_api_devices_row [OF up, of _ ?without]
      put_api_services_row [OF up, of _ ?with] put_api_services_row [OF up, of _ ?without]
      put_api_devices_ids [OF up, of req] put_api_services_ids [OF up, of req]
    unfolding c u i by blast
qed

theorem image_reference_resolution_witness:
  "online example_db
   \<and> map d_image (devices (fst (post_api_devices example_db
        (example_request\<lparr>req_file := Some \<lparr>filename = ''1700000000000.jpg''\<rparr>\<rparr>)))) =
      [None, None, None, None, None, None, None, None, None, None, None,
       Some ''/uploads/1700000000000.jpg'']
   \<and> map d_image (devices (fst (post_api_devices example_db
        (example_request\<lparr>req_file := None\<rparr>)))) =
      [None, None, None, None, None, None, None, None, None, None, None,
       Some ''/uploads/placeholder.jpg'']
   \<and> map s_image (services (fst (put_api_services example_db
        (example_request\<lparr>req_params_id := 2, req_body := [''image'' \<mapsto> ''/uploads/old.png''],
           req_file := Some \<lparr>filename = ''1700000000000.jpg''\<rparr>\<rparr>)))) =
      [None, Some ''/uploads/1700000000000.jpg'']
   \<and> map s_image (services (fst (put_api_services example_db
        (example_request\<lparr>req_params_id := 2, req_body := [''image'' \<mapsto> ''/uploads/old.png''],
           req_file := None\<rparr>)))) =
      [None, Some ''/uploads/old.png'']
   \<and> map d_id (devices (fst (put_api_devices example_db
        (example_request\<lparr>req_params_id := 2,
           req_body := [''image'' \<mapsto> ''/uploads/old.png'']\<rparr>)))) =
      map d_id (devices example_db)"
proof -
  let ?f = "\<lparr>filename = ''1700000000000.jpg''\<rparr>"
  let ?req = "example_request\<lparr>req_params_id := 2,
    req_body := [''image'' \<mapsto> ''/uploads/old.png'']\<rparr>"
  have up: "online example_db" by (simp add: example_db_def)
  have e1: "map d_image (devices (fst (post_api_devices example_db
        (example_request\<lparr>req_file := Some ?f\<rparr>)))) =
      [None, None, None, None, None, None, None, None, None, None, None,
       Some ''/uploads/1700000000000.jpg'']"
    by (simp add: post_api_devices_def insert_into_devices_def image_of_create_def
        example_db_def example_request_def blank_device_def)
  have e2: "map d_image (devices (fst (post_api_devices example_db
        (example_request\<lparr>req_file := None\<rparr>)))) =
      [None, None, None, None, None, None, None, None, None, None, None,
       Some ''/uploads/placeholder.jpg'']"
    by (simp add: post_api_devices_def insert_into_devices_def image_of_create_def
        example_db_def example_request_def blank_device_def)
  have e3: "map s_image (services (fst (put_api_services example_db
        (?req\<lparr>req_file := Some ?f\<rparr>)))) = [None, Some ''/uploads/1700000000000.jpg'']"
    by (simp add: put_api_services_def update_services_where_id_def image_of_update_def
        example_db_def example_request_def blank_service_def)
  have e4: "map s_image (services (fst (put_api_services example_db
        (?req\<lparr>req_file := None\<rparr>)))) = [None, Some ''/uploads/old.png'']"
    by (simp add: put_api_services_def update_services_where_id_def image_of_update_def
        example_db_def example_request_def blank_service_def)
  have i: "req_params_id ?req = 2" "req_body ?req ''image'' = Some ''/uploads/old.png''"
    by simp_all
  show ?thesis
    using image_reference_resolution [OF up, where req = ?req and f = ?f] up e1 e2 e3 e4
    unfolding i by simp
qed

subsection \<open>Register and login\<close>

lemma filter_none: "\<forall>x\<in>set xs. \<not> P x \<Longrightarrow> filter P xs = []"
  by (induction xs) simp_all

lemma filter_some: "\<exists>x\<in>set xs. P x \<Longrightarrow> filter P xs \<noteq> []"
  by (induction xs) auto

lemma find_is_first_match: "find P xs = Some u \<Longrightarrow> \<exists>rest. filter P xs = u # rest"
  by (induction xs) (auto split: if_splits)


lemma post_api_register_invalid:
  "falsy (req_body req ''email'') \<or> falsy (req_body req ''password'') \<Longrightarrow>
   post_api_register db req =
     (db, \<lparr>res_status = 400, res_body = ErrorJson ''Invalid input''\<rparr>)"
  by (auto simp add: post_api_register_def Let_def)

lemma post_api_register_conflict:
  assumes "online db" "req_body req ''email'' = Some e" "e \<noteq> []"
    "req_body req ''password'' = Some p" "p \<noteq> []" "\<exists>u\<in>set (users db). u_email u = e"
  shows "post_api_register db req =
     (db, \<lparr>res_status = 400, res_body = ErrorJson ''Email already exists''\<rparr>)"
proof -
  from assms(6) have "filter (\<lambda>u. u_email u = e) (users db) \<noteq> []"
    by (rule filter_some)
  with assms(1-5) show ?thesis
    by (simp add: post_api_register_def Let_def falsy_def select_users_where_email_def)
qed

lemma post_api_register_created:
  assumes "online db" "req_body req ''email'' = Some e" "e \<noteq> []"
    "req_body req ''password'' = Some p" "p \<noteq> []" "\<forall>u\<in>set (users db). u_email u \<noteq> e"
  shows "post_api_register db req =
     (db\<lparr>users := users db @
            [\<lparr>u_id = users_auto_increment db, u_email = e, u_password = p,
              u_role = ''user''\<rparr>],
          users_auto_increment := users_auto_increment db + 1\<rparr>,
      \<lparr>res_status = 201, res_body = MessageJson ''User registered''\<rparr>)"
proof -
  from assms(6) have "filter (\<lambda>u. u_email u = e) (users db) = []"
    by (simp add: filter_none)
  with assms(1-5) show ?thesis
    by (simp add: post_api_register_def Let_def falsy_def select_users_where_email_def
        insert_into_users_def)
qed

text \<open>
  C4. Register answers 400 \<open>Invalid input\<close> whenever the email or the password is
  absent or empty, and the store is as it was. With an email and a password that are
  both non-empty, on a store that answers: when a user with that email exists, the answer
  is 400 \<open>Email already exists\<close>, whatever the password, and the store is as it was;
  when none exists, the answer is 201 \<open>User registered\<close> and the store differs only by
  one new row at the end of \<open>users\<close>, with the given email and password, the role
  \<open>user\<close> and the next id of the table.
\<close>

theorem register_outcomes:
  "(falsy (req_body req ''email'') \<or> falsy (req_body req ''password'') \<longrightarrow>
      post_api_register db req =
        (db, \<lparr>res_status = 400, res_body = ErrorJson ''Invalid input''\<rparr>))
   \<and> (online db \<and> req_body req ''email'' = Some e \<and> e \<noteq> [] \<and>
       req_body req ''password'' = Some p \<and> p \<noteq> [] \<longrightarrow>
        ((\<exists>u\<in>set (users db). u_email u = e) \<longrightarrow>
           post_api_register db req =
             (db, \<lparr>res_status = 400, res_body = ErrorJson ''Email already exists''\<rparr>))
      \<and> ((\<forall>u\<in>set (users db). u_email u \<noteq> e) \<longrightarrow>
           post_api_register db req =
             (db\<lparr>users := users db @
                    [\<lparr>u_id = users_auto_increment db, u_email = e, u_password = p,
                      u_role = ''user''\<rparr>],
                  users_auto_increment := users_auto_increment db + 1\<rparr>,
              \<lparr>res_status = 201, res_body = MessageJson ''User registered''\<rparr>)))"
  using post_api_register_invalid [of req db]
    post_api_register_conflict [of db req e p]
    post_api_register_created [of db req e p]
  by blast

theorem register_outcomes_witness:
  "falsy (req_body (example_request\<lparr>req_body := [''email'' \<mapsto> ''b@x.com'']\<rparr>) ''password'')
   \<and> post_api_register example_db (example_request\<lparr>req_body := [''email'' \<mapsto> ''b@x.com'']\<rparr>) =
       (example_db, \<lparr>res_status = 400, res_body = ErrorJson ''Invalid input''\<rparr>)
   \<and> online example_db
   \<and> (\<exists>u\<in>set (users example_db). u_email u = ''a@x.com'')
   \<and> post_api_register example_db
        (example_request\<lparr>req_body := [''email'' \<mapsto> ''a@x.com'', ''password'' \<mapsto> ''other'']\<rparr>) =
       (example_db, \<lparr>res_status = 400, res_body = ErrorJson ''Email already exists''\<rparr>)
   \<and> \<not> (\<exists>u\<in>set (users example_db). u_email u = ''b@x.com'')
   \<and> post_api_register example_db
        (example_request\<lparr>req_body := [''email'' \<mapsto> ''b@x.com'', ''password'' \<mapsto> ''q'']\<rparr>) =
       (example_db\<lparr>users :=
            [\<lparr>u_id = 1, u_email = ''a@x.com'', u_password = ''p'', u_role = ''user''\<rparr>,
             \<lparr>u_id = 2, u_email = ''b@x.com'', u_password = ''q'', u_role = ''user''\<rparr>],
          users_auto_increment := 3\<rparr>,
        \<lparr>res_status = 201, res_body = MessageJson ''User registered''\<rparr>)"
proof -
  let ?r1 = "example_request\<lparr>req_body := [''email'' \<mapsto> ''b@x.com'']\<rparr>"
  let ?r2 = "example_request\<lparr>req_body := [''email'' \<mapsto> ''a@x.com'', ''password'' \<mapsto> ''other'']\<rparr>"
  let ?r3 = "example_request\<lparr>req_body := [''email'' \<mapsto> ''b@x.com'', ''password'' \<mapsto> ''q'']\<rparr>"
  have f1: "falsy (req_body ?r1 ''password'')" by (simp add: falsy_def)
  have up: "online example_db" by (simp add: example_db_def)
  have us: "users example_db =
      [\<lparr>u_id = 1, u_email = ''a@x.com'', u_password = ''p'', u_role = ''user''\<rparr>]"
    "users_auto_increment example_db = 2"
    by (simp_all add: example_db_def)
  have b2: "req_body ?r2 ''email'' = Some ''a@x.com''" "req_body ?r2 ''password'' = Some ''other''"
    by simp_all
  have b3: "req_body ?r3 ''email'' = Some ''b@x.com''" "req_body ?r3 ''password'' = Some ''q''"
    by simp_all
  have c1: "post_api_register example_db ?r1 =
       (example_db, \<lparr>res_status = 400, res_body = ErrorJson ''Invalid input''\<rparr>)"
    using register_outcomes [of ?r1 example_db] f1 by blast
  have c2: "post_api_register example_db ?r2 =
       (example_db, \<lparr>res_status = 400, res_body = ErrorJson ''Email already exists''\<rparr>)"
    using register_outcomes [of ?r2 example_db "''a@x.com''" "''other''"] up b2
    by (simp add: us)
  have c3: "post_api_register example_db ?r3 =
       (example_db\<lparr>users :=
            [\<lparr>u_id = 1, u_email = ''a@x.com'', u_password = ''p'', u_role = ''user''\<rparr>,
             \<lparr>u_id = 2, u_email = ''b@x.com'', u_password = ''q'', u_role = ''user''\<rparr>],
          users_auto_increment := 3\<rparr>,
        \<lparr>res_status = 201, res_body = MessageJson ''User registered''\<rparr>)"
    using register_outcomes [of ?r3 example_db "''b@x.com''" "''q''"] up b3
    by (simp add: us)
  show ?thesis
    using f1 up c1 c2 c3 by (simp add: us)
qed

lemma post_api_login_not_found:
  assumes "online db" "\<forall>u\<in>set (users db). Some (u_email u) \<noteq> req_body req ''email''"
  shows "post_api_login env db req =
     (db, \<lparr>res_status = 401, res_body = ErrorJson ''User not found''\<rparr>)"
proof (cases "req_body req ''email''")
  case None
  with assms(1) show ?thesis
    by (simp add: post_api_login_def Let_def select_users_where_email_def)
next
  case (Some e)
  with assms(2) have "filter (\<lambda>u. u_email u = e) (users db) = []"
    by (simp add: filter_none)
  with assms(1) Some show ?thesis
    by (simp add: post_api_login_def Let_def select_users_where_email_def)
qed

lemma post_api_login_found:
  assumes "online db"
    "find (\<lambda>u. Some (u_email u) = req_body req ''email'') (users db) = Some u"
  shows "post_api_login env db req =
     (if req_body req ''password'' \<noteq> Some (u_password u)
      then (db, \<lparr>res_status = 401, res_body = ErrorJson ''Invalid password''\<rparr>)
      else (case jwt_sign env \<lparr>p_id = u_id u, p_role = u_role u\<rparr> (JWT_SECRET env)
                   \<lparr>expiresIn = ''1h''\<rparr> of
              None \<Rightarrow> (db, \<lparr>res_status = 500, res_body = ErrorJson ''Login failed''\<rparr>)
            | Some token \<Rightarrow>
                (db, \<lparr>res_status = 200, res_body = LoginJson token (u_role u)\<rparr>)))"
proof -
  from find_is_first_match [OF assms(2)] obtain rest where
    f: "filter (\<lambda>u. Some (u_email u) = req_body req ''email'') (users db) = u # rest"
    by blast
  then have "u \<in> set (filter (\<lambda>u. Some (u_email u) = req_body req ''email'') (users db))"
    by simp
  then have e: "req_body req ''email'' = Some (u_email u)" by simp
  from f e have "filter (\<lambda>v. u_email v = u_email u) (users db) = u # rest"
    by (simp add: eq_commute)
  with assms(1) e show ?thesis
    by (simp add: post_api_login_def Let_def select_users_where_email_def)
qed

lemma jwt_sign_without_secret: "falsy secret \<Longrightarrow> jwt_sign env payload secret options = None"
  by (simp add: jwt_sign_def)

text \<open>
  C6. On a store that answers, Login answers 401 \<open>User not found\<close> whenever no user
  has the email of the request (an absent email included). Otherwise let \<open>u\<close> be the
  matched user, the first row with that email (the only one where emails are unique):
  when the password of the request is not exactly the stored one, the answer is 401
  \<open>Invalid password\<close>; when it is, and \<open>jwt.sign\<close> returns a token for the payload
  \<open>{id, role}\<close> of \<open>u\<close> under the secret with the option \<open>expiresIn: '1h'\<close>, the answer
  is 200 with that token and the role of \<open>u\<close>. That is the success of the claim: when
  \<open>jwt.sign\<close> throws instead, as it does when \<open>JWT_SECRET\<close> is unset or empty, the
  \<open>catch\<close> answers 500 \<open>Login failed\<close>. The store is as it was in every case.
\<close>

theorem login_outcomes:
  assumes "online db"
  shows "((\<forall>u\<in>set (users db). Some (u_email u) \<noteq> req_body req ''email'') \<longrightarrow>
            post_api_login env db req =
              (db, \<lparr>res_status = 401, res_body = ErrorJson ''User not found''\<rparr>))
       \<and> (find (\<lambda>u. Some (u_email u) = req_body req ''email'') (users db) = Some u \<longrightarrow>
            (req_body req ''password'' \<noteq> Some (u_password u) \<longrightarrow>
               post_api_login env db req =
                 (db, \<lparr>res_status = 401, res_body = ErrorJson ''Invalid password''\<rparr>))
          \<and> (req_body req ''password'' = Some (u_password u) \<longrightarrow>
               (jwt_sign env \<lparr>p_id = u_id u, p_role = u_role u\<rparr> (JWT_SECRET env)
                  \<lparr>expiresIn = ''1h''\<rparr> = Some token \<longrightarrow>
                  post_api_login env db req =
                    (db, \<lparr>res_status = 200, res_body = LoginJson token (u_role u)\<rparr>))
             \<and> (jwt_sign env \<lparr>p_id = u_id u, p_role = u_role u\<rparr> (JWT_SECRET env)
                  \<lparr>expiresIn = ''1h''\<rparr> = None \<longrightarrow>
                  post_api_login env db req =
                    (db, \<lparr>res_status = 500, res_body = ErrorJson ''Login failed''\<rparr>))
             \<and> (falsy (JWT_SECRET env) \<longrightarrow>
                  post_api_login env db req =
                    (db, \<lparr>res_status = 500, res_body = ErrorJson ''Login failed''\<rparr>))))"
  using post_api_login_not_found [OF assms, where req = req and env = env]
    post_api_login_found [OF assms, where req = req and u = u and env = env]
    jwt_sign_without_secret [of "JWT_SECRET env" env "\<lparr>p_id = u_id u, p_role = u_role u\<rparr>"
      "\<lparr>expiresIn = ''1h''\<rparr>"]
  by simp

theorem login_outcomes_witness:
  "online example_db
   \<and> post_api_login example_env example_db
        (example_request\<lparr>req_body := [''email'' \<mapsto> ''b@x.com'', ''password'' \<mapsto> ''p'']\<rparr>) =
       (example_db, \<lparr>res_status = 401, res_body = ErrorJson ''User not found''\<rparr>)
   \<and> find (\<lambda>u. Some (u_email u) = Some ''a@x.com'') (users example_db) =
       Some \<lparr>u_id = 1, u_email = ''a@x.com'', u_password = ''p'', u_role = ''user''\<rparr>
   \<and> post_api_login example_env example_db
        (example_request\<lparr>req_body := [''email'' \<mapsto> ''a@x.com'', ''password'' \<mapsto> ''P'']\<rparr>) =
       (example_db, \<lparr>res_status = 401, res_body = ErrorJson ''Invalid password''\<rparr>)
   \<and> jwt_sign example_env \<lparr>p_id = 1, p_role = ''user''\<rparr> (JWT_SECRET example_env)
        \<lparr>expiresIn = ''1h''\<rparr> = Some ''k.user''
   \<and> post_api_login example_env example_db
        (example_request\<lparr>req_body := [''email'' \<mapsto> ''a@x.com'', ''password'' \<mapsto> ''p'']\<rparr>) =
       (example_db, \<lparr>res_status = 200, res_body = LoginJson ''k.user'' ''user''\<rparr>)
   \<and> falsy (JWT_SECRET (example_env\<lparr>JWT_SECRET := None\<rparr>))
   \<and> jwt_sign (example_env\<lparr>JWT_SECRET := None\<rparr>) \<lparr>p_id = 1, p_role = ''user''\<rparr>
        (JWT_SECRET (example_env\<lparr>JWT_SECRET := None\<rparr>)) \<lparr>expiresIn = ''1h''\<rparr> = None
   \<and> post_api_login (example_env\<lparr>JWT_SECRET := None\<rparr>) example_db
        (example_request\<lparr>req_body := [''email'' \<mapsto> ''a@x.com'', ''password'' \<mapsto> ''p'']\<rparr>) =
       (example_db, \<lparr>res_status = 500, res_body = ErrorJson ''Login failed''\<rparr>)"
proof -
  let ?r1 = "example_request\<lparr>req_body := [''email'' \<mapsto> ''b@x.com'', ''password'' \<mapsto> ''p'']\<rparr>"
  let ?r2 = "example_request\<lparr>req_body := [''email'' \<mapsto> ''a@x.com'', ''password'' \<mapsto> ''P'']\<rparr>"
  let ?r3 = "example_request\<lparr>req_body := [''email'' \<mapsto> ''a@x.com'', ''password'' \<mapsto> ''p'']\<rparr>"
  let ?u = "\<lparr>u_id = 1, u_email = ''a@x.com'', u_password = ''p'', u_role = ''user''\<rparr>"
  let ?unset = "example_env\<lparr>JWT_SECRET := None\<rparr>"
  have up: "online example_db" by (simp add: example_db_def)
  have us: "users example_db = [?u]" by (simp add: example_db_def)
  have b: "req_body ?r1 ''email'' = Some ''b@x.com''"
    "req_body ?r2 ''email'' = Some ''a@x.com''" "req_body ?r2 ''password'' = Some ''P''"
    "req_body ?r3 ''email'' = Some ''a@x.com''" "req_body ?r3 ''password'' = Some ''p''"
    by simp_all
  have sg: "jwt_sign example_env \<lparr>p_id = 1, p_role = ''user''\<rparr> (JWT_SECRET example_env)
      \<lparr>expiresIn = ''1h''\<rparr> = Some ''k.user''"
    by (simp add: jwt_sign_def falsy_def example_env_def)
  have ns: "falsy (JWT_SECRET ?unset)"
    by (simp add: falsy_def)
  have nt: "jwt_sign ?unset \<lparr>p_id = 1, p_role = ''user''\<rparr> (JWT_SECRET ?unset)
      \<lparr>expiresIn = ''1h''\<rparr> = None"
    by (simp add: jwt_sign_def falsy_def)
  have c1: "post_api_login example_env example_db ?r1 =
       (example_db, \<lparr>res_status = 401, res_body = ErrorJson ''User not found''\<rparr>)"
    using login_outcomes [OF up, where req = ?r1 and env = example_env] unfolding b us by simp
  have c2: "post_api_login example_env example_db ?r2 =
       (example_db, \<lparr>res_status = 401, res_body = ErrorJson ''Invalid password''\<rparr>)"
    using login_outcomes [OF up, where req = ?r2 and u = ?u and env = example_env]
    unfolding b us by simp
  have c3: "post_api_login example_env example_db ?r3 =
       (example_db, \<lparr>res_status = 200, res_body = LoginJson ''k.user'' ''user''\<rparr>)"
    using login_outcomes [OF up, where req = ?r3 and u = ?u and env = example_env
        and token = "''k.user''"] sg
    unfolding b us by simp
  have c4: "post_api_login ?unset example_db ?r3 =
       (example_db, \<lparr>res_status = 500, res_body = ErrorJson ''Login failed''\<rparr>)"
    using login_outcomes [OF up, where req = ?r3 and u = ?u and env = ?unset] nt
    unfolding b us by simp
  show ?thesis
    using up sg ns nt c1 c2 c3 c4 by (simp add: us)
qed




end
